theory Spec2Isabelle
  imports Main
begin

section \<open>Python values and exceptions\<close>

text \<open>
  The program is one script, \<^verbatim>\<open>india_weather_forcast.py\<close>: a fetcher
  \<^verbatim>\<open>get_weather_data\<close>, a persister \<^verbatim>\<open>save_weather_data\<close> and the driver under
  \<^verbatim>\<open>__main__\<close>. It talks to the network through \<^verbatim>\<open>requests\<close> and handles tables
  through \<^verbatim>\<open>pandas\<close>. Both libraries are outside the repository; the parts of them
  the script calls are modelled below from their documented behaviour, each with the
  limits of the model written next to it.

  A decoded JSON body is a Python object. A \<^verbatim>\<open>dict\<close> is an association list in
  which a key is looked up from the front; a \<^verbatim>\<open>float\<close> is carried by the decimal text
  that Python's \<^verbatim>\<open>repr\<close> prints for it (\<^verbatim>\<open>30.5\<close>), which identifies the float and is
  what the CSV writer emits.
\<close>

datatype json =
    JNull
  | JBool bool
  | JInt int
  | JFloat string
  | JStr string
  | JArr "json list"
  | JObj "(string \<times> json) list"

text \<open>
  The exception classes that the modelled calls can raise. The first three derive from
  \<^verbatim>\<open>requests.exceptions.RequestException\<close> (\<^verbatim>\<open>JSONDecodeError\<close> does so since
  requests 2.27); \<^verbatim>\<open>FileNotFoundError\<close> and \<^verbatim>\<open>PermissionError\<close> derive from \<^verbatim>\<open>OSError\<close>;
  \<^verbatim>\<open>EmptyDataError\<close> and \<^verbatim>\<open>ParserError\<close> are the errors of \<^verbatim>\<open>pandas.read_csv\<close>.
  Every one of them derives from \<^verbatim>\<open>Exception\<close>.
\<close>

datatype exn =
    ConnectionError
  | HTTPError
  | JSONDecodeError
  | KeyError
  | IndexError
  | TypeError
  | AttributeError
  | ValueError
  | FileNotFoundError
  | PermissionError
  | EmptyDataError
  | ParserError

fun is_RequestException :: "exn \<Rightarrow> bool" where
  "is_RequestException ConnectionError = True"
| "is_RequestException HTTPError = True"
| "is_RequestException JSONDecodeError = True"
| "is_RequestException _ = False"

text \<open>
  A computation that may raise returns \<open>Inl\<close> of the exception; \<open>and_then\<close> runs the
  next statement only when the previous one returned.
\<close>

definition and_then :: "exn + 'a \<Rightarrow> ('a \<Rightarrow> exn + 'b) \<Rightarrow> exn + 'b" where
  "and_then m f = (case m of Inl e \<Rightarrow> Inl e | Inr v \<Rightarrow> f v)"

text \<open>\<^verbatim>\<open>obj[key]\<close> with a string key: only a dict accepts it.\<close>

fun getitem :: "json \<Rightarrow> string \<Rightarrow> exn + json" where
  "getitem (JObj kvs) k = (case map_of kvs k of None \<Rightarrow> Inl KeyError | Some v \<Rightarrow> Inr v)"
| "getitem _ k = Inl TypeError"

text \<open>
  \<^verbatim>\<open>obj[0]\<close>: the first element of a list or the first character of a string; a dict
  decoded from JSON has string keys only, so \<open>0\<close> is a missing key.
\<close>

fun getitem0 :: "json \<Rightarrow> exn + json" where
  "getitem0 (JArr []) = Inl IndexError"
| "getitem0 (JArr (x # xs)) = Inr x"
| "getitem0 (JStr []) = Inl IndexError"
| "getitem0 (JStr (c # cs)) = Inr (JStr [c])"
| "getitem0 (JObj kvs) = Inl KeyError"
| "getitem0 _ = Inl TypeError"

text \<open>\<^verbatim>\<open>obj.get(key, default)\<close>: a method of dicts only.\<close>

fun dict_get :: "json \<Rightarrow> string \<Rightarrow> json \<Rightarrow> exn + json" where
  "dict_get (JObj kvs) k d = Inr (case map_of kvs k of None \<Rightarrow> d | Some v \<Rightarrow> v)"
| "dict_get _ k d = Inl AttributeError"

text \<open>
  \<^verbatim>\<open>for item in obj\<close>: a list yields its elements, a dict its keys, a string its
  characters; nothing else is iterable.
\<close>

fun py_iter :: "json \<Rightarrow> exn + json list" where
  "py_iter (JArr xs) = Inr xs"
| "py_iter (JObj kvs) = Inr (map (\<lambda>kv. JStr (fst kv)) kvs)"
| "py_iter (JStr s) = Inr (map (\<lambda>c. JStr [c]) s)"
| "py_iter _ = Inl TypeError"

section \<open>Decimal text\<close>

definition is_digit :: "char \<Rightarrow> bool" where
  "is_digit c = (48 \<le> (of_char c :: nat) \<and> (of_char c :: nat) \<le> 57)"

definition digit_val :: "char \<Rightarrow> int" where
  "digit_val c = (of_char c :: int) - 48"

definition digit_char :: "nat \<Rightarrow> char" where
  "digit_char d = ''0123456789'' ! (d mod 10)"

fun int_of_digits :: "int \<Rightarrow> string \<Rightarrow> int" where
  "int_of_digits acc [] = acc"
| "int_of_digits acc (c # cs) = int_of_digits (10 * acc + digit_val c) cs"

function show_pos :: "int \<Rightarrow> string" where
  "show_pos i =
     (if i < 10 then [digit_char (nat i)]
      else show_pos (i div 10) @ [digit_char (nat (i mod 10))])"
  by pat_completeness auto
termination
  by (relation "measure nat") auto

declare show_pos.simps [simp del]

definition show_int :: "int \<Rightarrow> string" where
  "show_int i = (if i < 0 then CHR ''-'' # show_pos (- i) else show_pos i)"

text \<open>
  \<^verbatim>\<open>repr(float(n))\<close> for an integer \<open>n\<close>: the digits followed by \<^verbatim>\<open>.0\<close>. (Python
  switches to exponent notation from \<open>10\<^sup>1\<^sup>6\<close> on; the model covers the integers
  below that, which is all a weather report holds.)
\<close>

definition float_repr_of_int :: "int \<Rightarrow> string" where
  "float_repr_of_int i = show_int i @ ''.0''"

definition pad2 :: "nat \<Rightarrow> string" where
  "pad2 n = [digit_char ((n div 10) mod 10), digit_char (n mod 10)]"

definition pad4 :: "nat \<Rightarrow> string" where
  "pad4 n = pad2 (n div 100) @ pad2 (n mod 100)"

section \<open>Timestamps\<close>

text \<open>
  \<^verbatim>\<open>pd.to_datetime\<close> turns the text of \<^verbatim>\<open>dt_txt\<close> into a timestamp. The forecast API
  sends \<^verbatim>\<open>YYYY-MM-DD HH:MM:SS\<close>; the model parses exactly this layout, checks that it
  names a date of the calendar and a time of day, and keeps the year inside
  \<open>1678 \<dots> 2261\<close>, where every instant fits the nanosecond range of
  \<^verbatim>\<open>datetime64[ns]\<close>. Any other text is refused with \<^verbatim>\<open>ValueError\<close>, as pandas refuses
  text it cannot read as a date. (pandas reads further layouts as well; they do not
  occur in the API's answers and are outside the model.)
\<close>

datatype timestamp =
  Timestamp (year: nat) (month: nat) (day: nat) (hour: nat) (minute: nat) (second: nat)

definition leap_year :: "nat \<Rightarrow> bool" where
  "leap_year y = (y mod 4 = 0 \<and> (y mod 100 \<noteq> 0 \<or> y mod 400 = 0))"

definition days_in_month :: "nat \<Rightarrow> nat \<Rightarrow> nat" where
  "days_in_month y m =
     (if m = 2 then (if leap_year y then 29 else 28)
      else if m = 4 \<or> m = 6 \<or> m = 9 \<or> m = 11 then 30 else 31)"

definition valid_timestamp :: "timestamp \<Rightarrow> bool" where
  "valid_timestamp t =
     (1678 \<le> year t \<and> year t \<le> 2261 \<and> 1 \<le> month t \<and> month t \<le> 12 \<and>
      1 \<le> day t \<and> day t \<le> days_in_month (year t) (month t) \<and>
      hour t < 24 \<and> minute t < 60 \<and> second t < 60)"

fun parse_dt_txt :: "string \<Rightarrow> timestamp option" where
  "parse_dt_txt [y1, y2, y3, y4, a, m1, m2, b, d1, d2, c, h1, h2, e, n1, n2, f, s1, s2] =
     (let t = Timestamp (nat (int_of_digits 0 [y1, y2, y3, y4])) (nat (int_of_digits 0 [m1, m2]))
                (nat (int_of_digits 0 [d1, d2])) (nat (int_of_digits 0 [h1, h2]))
                (nat (int_of_digits 0 [n1, n2])) (nat (int_of_digits 0 [s1, s2]))
      in if list_all is_digit [y1, y2, y3, y4, m1, m2, d1, d2, h1, h2, n1, n2, s1, s2] \<and>
            a = CHR ''-'' \<and> b = CHR ''-'' \<and> c = CHR '' '' \<and> e = CHR '':'' \<and> f = CHR '':'' \<and>
            valid_timestamp t
         then Some t else None)"
| "parse_dt_txt _ = None"

definition format_date :: "timestamp \<Rightarrow> string" where
  "format_date t = pad4 (year t) @ ''-'' @ pad2 (month t) @ ''-'' @ pad2 (day t)"

definition format_timestamp :: "timestamp \<Rightarrow> string" where
  "format_timestamp t =
     format_date t @ '' '' @ pad2 (hour t) @ '':'' @ pad2 (minute t) @ '':'' @ pad2 (second t)"

definition is_midnight :: "timestamp \<Rightarrow> bool" where
  "is_midnight t = (hour t = 0 \<and> minute t = 0 \<and> second t = 0)"

section \<open>Tables\<close>

text \<open>
  A cell of a \<^verbatim>\<open>DataFrame\<close> holds a missing value (\<^verbatim>\<open>None\<close>, \<^verbatim>\<open>NaN\<close> and \<^verbatim>\<open>NaT\<close>
  are all written as the empty field and all count as equal when rows are compared), an
  integer, a float, a boolean, a text, a timestamp, or a nested list or dict taken
  over from the JSON body. A text and a timestamp are different Python objects, also
  when the text spells the timestamp.

  A frame is the list of its named columns, in column order; all columns of a frame
  have the same length. The row labels (the index) are never written to the file
  (\<^verbatim>\<open>index=False\<close>) and never compared, so they are not modelled. pandas keeps a column
  numeric where it can: a column of integers, floats and missing values that is not
  all integers is a \<^verbatim>\<open>float64\<close> column, and its integers are floats.
\<close>

datatype cell =
    NA
  | IntV int
  | FloatV string
  | BoolV bool
  | StrV string
  | TimeV timestamp
  | ObjV json

type_synonym dataframe = "(string \<times> cell list) list"

fun cell_of_json :: "json \<Rightarrow> cell" where
  "cell_of_json JNull = NA"
| "cell_of_json (JBool b) = BoolV b"
| "cell_of_json (JInt i) = IntV i"
| "cell_of_json (JFloat r) = FloatV r"
| "cell_of_json (JStr s) = StrV s"
| "cell_of_json (JArr xs) = ObjV (JArr xs)"
| "cell_of_json (JObj kvs) = ObjV (JObj kvs)"

fun is_int_cell :: "cell \<Rightarrow> bool" where
  "is_int_cell (IntV i) = True"
| "is_int_cell _ = False"

fun is_number_or_NA :: "cell \<Rightarrow> bool" where
  "is_number_or_NA NA = True"
| "is_number_or_NA (IntV i) = True"
| "is_number_or_NA (FloatV r) = True"
| "is_number_or_NA _ = False"

definition float_column :: "cell list \<Rightarrow> bool" where
  "float_column cs = (list_all is_number_or_NA cs \<and> \<not> list_all is_int_cell cs)"

fun as_float :: "cell \<Rightarrow> cell" where
  "as_float (IntV i) = FloatV (float_repr_of_int i)"
| "as_float c = c"

definition unify :: "cell list \<Rightarrow> cell list" where
  "unify cs = (if float_column cs then map as_float cs else cs)"

definition nrows :: "dataframe \<Rightarrow> nat" where
  "nrows df = (case df of [] \<Rightarrow> 0 | col # cols \<Rightarrow> length (snd col))"

text \<open>\<^verbatim>\<open>pd.DataFrame({name: list, ...})\<close>: one column per entry of the dict.\<close>

definition DataFrame :: "(string \<times> json list) list \<Rightarrow> dataframe" where
  "DataFrame d = map (\<lambda>(name, xs). (name, unify (map cell_of_json xs))) d"

text \<open>\<^verbatim>\<open>df[name]\<close> reads a column; \<^verbatim>\<open>df[name] = column\<close> replaces it or adds it last.\<close>

definition getcol :: "dataframe \<Rightarrow> string \<Rightarrow> exn + cell list" where
  "getcol df name = (case map_of df name of None \<Rightarrow> Inl KeyError | Some cs \<Rightarrow> Inr cs)"

definition setcol :: "dataframe \<Rightarrow> string \<Rightarrow> cell list \<Rightarrow> dataframe" where
  "setcol df name cs =
     (if name \<in> set (map fst df)
      then map (\<lambda>(n, old). (n, if n = name then cs else old)) df
      else df @ [(name, cs)])"

text \<open>
  \<^verbatim>\<open>pd.to_datetime(column)\<close>: a text is parsed, a missing value stays missing
  (\<^verbatim>\<open>NaT\<close>), a timestamp stays; one text that cannot be parsed fails the whole call.
  A number, a boolean or a nested value in the column is refused as well (pandas
  reads a number as an offset from the epoch; a \<^verbatim>\<open>dt_txt\<close> of that kind is outside the
  model).
\<close>

fun to_datetime_cell :: "cell \<Rightarrow> cell option" where
  "to_datetime_cell (StrV s) = map_option TimeV (parse_dt_txt s)"
| "to_datetime_cell NA = Some NA"
| "to_datetime_cell (TimeV t) = Some (TimeV t)"
| "to_datetime_cell _ = None"

definition to_datetime :: "cell list \<Rightarrow> exn + cell list" where
  "to_datetime cs =
     (case those (map to_datetime_cell cs) of None \<Rightarrow> Inl ValueError | Some ts \<Rightarrow> Inr ts)"

section \<open>The fetcher\<close>

text \<open>
  The network is a function from the URL and the query parameters of a GET to what
  \<^verbatim>\<open>requests.get\<close> does with them: it raises (no connection, a timeout), or it returns
  a response with a status code and a body, which is JSON or not.
\<close>

datatype response = Response (status_code: nat) (body: "json option")

type_synonym net = "string \<Rightarrow> (string \<times> string) list \<Rightarrow> response option"

definition requests_get :: "net \<Rightarrow> string \<Rightarrow> (string \<times> string) list \<Rightarrow> exn + response" where
  "requests_get world url params =
     (case world url params of None \<Rightarrow> Inl ConnectionError | Some r \<Rightarrow> Inr r)"

definition raise_for_status :: "response \<Rightarrow> exn + unit" where
  "raise_for_status r =
     (if 400 \<le> status_code r \<and> status_code r < 600 then Inl HTTPError else Inr ())"

definition response_json :: "response \<Rightarrow> exn + json" where
  "response_json r = (case body r of None \<Rightarrow> Inl JSONDecodeError | Some j \<Rightarrow> Inr j)"

text \<open>What the script prints, line by line; the text of an exception is not modelled.\<close>

datatype msg =
    Fetching_all
  | Fetching string
  | Error_fetching exn
  | Failed_to_fetch string
  | Saved_to string
  | Error_saving exn
  | No_data_fetched

text \<open>The ten lists of lines 30 and 31, filled by the loop of lines 33 to 43.\<close>

record extracted =
  timestamps :: "json list"
  temperatures :: "json list"
  humidity :: "json list"
  wind_speed :: "json list"
  pressure :: "json list"
  visibility :: "json list"
  rainfall :: "json list"
  cloud_cover :: "json list"
  icons :: "json list"
  descriptions :: "json list"

definition empty_lists :: extracted where
  "empty_lists =
     \<lparr>timestamps = [], temperatures = [], humidity = [], wind_speed = [], pressure = [],
      visibility = [], rainfall = [], cloud_cover = [], icons = [], descriptions = []\<rparr>"

text \<open>
  One pass of the loop body: ten \<^verbatim>\<open>append\<close> statements in the order of the source,
  each evaluating its argument first, so that the first lookup that fails ends the pass
  with its exception.
\<close>

definition loop_body :: "json \<Rightarrow> extracted \<Rightarrow> exn + extracted" where
  "loop_body item l0 =
     and_then (getitem item ''dt_txt'') (\<lambda>v.
     let l1 = l0\<lparr>timestamps := timestamps l0 @ [v]\<rparr> in
     and_then (and_then (getitem item ''main'') (\<lambda>m. getitem m ''temp'')) (\<lambda>v.
     let l2 = l1\<lparr>temperatures := temperatures l1 @ [v]\<rparr> in
     and_then (and_then (getitem item ''main'') (\<lambda>m. getitem m ''humidity'')) (\<lambda>v.
     let l3 = l2\<lparr>humidity := humidity l2 @ [v]\<rparr> in
     and_then (and_then (getitem item ''wind'') (\<lambda>w. getitem w ''speed'')) (\<lambda>v.
     let l4 = l3\<lparr>wind_speed := wind_speed l3 @ [v]\<rparr> in
     and_then (and_then (getitem item ''main'') (\<lambda>m. getitem m ''pressure'')) (\<lambda>v.
     let l5 = l4\<lparr>pressure := pressure l4 @ [v]\<rparr> in
     and_then (dict_get item ''visibility'' JNull) (\<lambda>v.
     let l6 = l5\<lparr>visibility := visibility l5 @ [v]\<rparr> in
     and_then (and_then (dict_get item ''rain'' (JObj [])) (\<lambda>r. dict_get r ''3h'' (JInt 0))) (\<lambda>v.
     let l7 = l6\<lparr>rainfall := rainfall l6 @ [v]\<rparr> in
     and_then (and_then (getitem item ''clouds'') (\<lambda>c. getitem c ''all'')) (\<lambda>v.
     let l8 = l7\<lparr>cloud_cover := cloud_cover l7 @ [v]\<rparr> in
     and_then (and_then (and_then (getitem item ''weather'') getitem0)
                 (\<lambda>w. getitem w ''icon'')) (\<lambda>v.
     let l9 = l8\<lparr>icons := icons l8 @ [v]\<rparr> in
     and_then (and_then (and_then (getitem item ''weather'') getitem0)
                 (\<lambda>w. getitem w ''description'')) (\<lambda>v.
     Inr (l9\<lparr>descriptions := descriptions l9 @ [v]\<rparr>)))))))))))"

fun for_items :: "json list \<Rightarrow> extracted \<Rightarrow> exn + extracted" where
  "for_items [] ls = Inr ls"
| "for_items (item # items) ls = and_then (loop_body item ls) (for_items items)"

text \<open>Lines 25 to 61: the body of the \<^verbatim>\<open>try\<close>.\<close>

definition fetch_frame :: "string \<Rightarrow> string \<Rightarrow> net \<Rightarrow> exn + dataframe" where
  "fetch_frame api_key city_id world =
     (let base_url = ''http://api.openweathermap.org/data/2.5/forecast'';
          params = [(''id'', city_id), (''appid'', api_key), (''units'', ''metric'')]
      in
      and_then (requests_get world base_url params) (\<lambda>response.
      and_then (raise_for_status response) (\<lambda>u.
      and_then (response_json response) (\<lambda>weather_data.
      and_then (getitem weather_data ''list'') (\<lambda>entries.
      and_then (py_iter entries) (\<lambda>items.
      and_then (for_items items empty_lists) (\<lambda>ls.
      let df = DataFrame
            [(''timestamp'', timestamps ls),
             (''temperature'', temperatures ls),
             (''humidity'', humidity ls),
             (''wind_speed'', wind_speed ls),
             (''pressure'', pressure ls),
             (''visibility'', visibility ls),
             (''rainfall'', rainfall ls),
             (''cloud_cover'', cloud_cover ls),
             (''icon'', icons ls),
             (''description'', descriptions ls)]
      in
      and_then (getcol df ''timestamp'') (\<lambda>col.
      and_then (to_datetime col) (\<lambda>ts.
      Inr (setcol df ''timestamp'' ts))))))))))"

text \<open>
  \<^verbatim>\<open>get_weather_data\<close>: the handler of line 63 catches a \<^verbatim>\<open>RequestException\<close>, prints and
  returns \<^verbatim>\<open>None\<close>; any other exception leaves the function. The result is \<open>Inl\<close> of
  an exception that propagates to the caller, or the returned value with the lines
  printed.
\<close>

definition get_weather_data :: "string \<Rightarrow> string \<Rightarrow> net \<Rightarrow> exn + (dataframe option \<times> msg list)" where
  "get_weather_data api_key city_id world =
     (case fetch_frame api_key city_id world of
        Inr df \<Rightarrow> Inr (Some df, [])
      | Inl e \<Rightarrow> if is_RequestException e then Inr (None, [Error_fetching e]) else Inl e)"

section \<open>CSV files\<close>

text \<open>
  A path names nothing, a CSV file, a file whose bytes pandas cannot split into fields
  (an unterminated quoted field, bytes that are not UTF-8), or something that cannot
  be opened at all (a directory, a file without permission). A CSV file is modelled by
  its grid of text fields, the header line first; \<open>csv_text\<close> gives the bytes of a
  grid. When the directory is read-only, nothing can be created or overwritten.
\<close>

datatype node = Csv "string list list" | Undecodable | NoAccess

record fs =
  nodes :: "string \<rightharpoonup> node"
  read_only :: bool

fun join :: "string \<Rightarrow> string list \<Rightarrow> string" where
  "join sep [] = []"
| "join sep [x] = x"
| "join sep (x # y # ys) = x @ sep @ join sep (y # ys)"

definition csv_field :: "string \<Rightarrow> string" where
  "csv_field f =
     (if list_ex (\<lambda>c. c = CHR '','' \<or> c = CHR 0x22 \<or> c = CHR 0x0A \<or> c = CHR 0x0D) f
      then [CHR 0x22] @ concat (map (\<lambda>c. if c = CHR 0x22 then [c, c] else [c]) f) @ [CHR 0x22]
      else f)"

definition csv_line :: "string list \<Rightarrow> string" where
  "csv_line row = join '','' (map csv_field row)"

definition csv_text :: "string list list \<Rightarrow> string" where
  "csv_text grid = concat (map (\<lambda>row. csv_line row @ [CHR 0x0A]) grid)"

subsection \<open>Writing\<close>

text \<open>
  \<^verbatim>\<open>str\<close> of a nested list or dict, as the CSV writer prints an object cell.
\<close>

definition hex_digit :: "nat \<Rightarrow> char" where
  "hex_digit d = ''0123456789abcdef'' ! (d mod 16)"

definition repr_char :: "char \<Rightarrow> char \<Rightarrow> string" where
  "repr_char q c =
     (if c = CHR 0x5C then [c, c]
      else if c = q then [CHR 0x5C, c]
      else if c = CHR 0x0A then [CHR 0x5C, CHR ''n'']
      else if c = CHR 0x0D then [CHR 0x5C, CHR ''r'']
      else if c = CHR 0x09 then [CHR 0x5C, CHR ''t'']
      else if (of_char c :: nat) < 32 \<or> (of_char c :: nat) = 127
        then [CHR 0x5C, CHR ''x'', hex_digit ((of_char c :: nat) div 16), hex_digit (of_char c :: nat)]
      else [c])"

definition repr_str :: "string \<Rightarrow> string" where
  "repr_str s =
     (let q = (if CHR 0x27 \<in> set s \<and> CHR 0x22 \<notin> set s then CHR 0x22 else CHR 0x27)
      in [q] @ concat (map (repr_char q) s) @ [q])"

fun py_repr :: "json \<Rightarrow> string" where
  "py_repr JNull = ''None''"
| "py_repr (JBool b) = (if b then ''True'' else ''False'')"
| "py_repr (JInt i) = show_int i"
| "py_repr (JFloat r) = r"
| "py_repr (JStr s) = repr_str s"
| "py_repr (JArr xs) = ''['' @ join '', '' (map py_repr xs) @ '']''"
| "py_repr (JObj kvs) =
     ''{'' @ join '', '' (map (\<lambda>kv. repr_str (fst kv) @ '': '' @ py_repr (snd kv)) kvs) @ ''}''"

fun render_cell :: "cell \<Rightarrow> string" where
  "render_cell NA = []"
| "render_cell (IntV i) = show_int i"
| "render_cell (FloatV r) = r"
| "render_cell (BoolV b) = (if b then ''True'' else ''False'')"
| "render_cell (StrV s) = s"
| "render_cell (TimeV t) = format_timestamp t"
| "render_cell (ObjV j) = py_repr j"

text \<open>
  A \<^verbatim>\<open>datetime64\<close> column (timestamps and missing values only) whose times are all
  midnight is written with the date alone; every other column is written cell by cell.
\<close>

fun date_only_cell :: "cell \<Rightarrow> bool" where
  "date_only_cell NA = True"
| "date_only_cell (TimeV t) = is_midnight t"
| "date_only_cell _ = False"

fun render_date :: "cell \<Rightarrow> string" where
  "render_date (TimeV t) = format_date t"
| "render_date c = render_cell c"

definition render_column :: "cell list \<Rightarrow> string list" where
  "render_column cs =
     (if list_all date_only_cell cs \<and> list_ex (\<lambda>c. c \<noteq> NA) cs
      then map render_date cs else map render_cell cs)"

text \<open>The rows of a list of columns of equal length.\<close>

fun rows_of :: "'a list list \<Rightarrow> 'a list list" where
  "rows_of [] = []"
| "rows_of [c] = map (\<lambda>x. [x]) c"
| "rows_of (c # cs) = map2 (#) c (rows_of cs)"

definition to_grid :: "dataframe \<Rightarrow> string list list" where
  "to_grid df = map fst df # rows_of (map (\<lambda>col. render_column (snd col)) df)"

text \<open>\<^verbatim>\<open>df.to_csv(filename, index=False)\<close>: the file is replaced as a whole.\<close>

definition to_csv :: "dataframe \<Rightarrow> string \<Rightarrow> fs \<Rightarrow> exn + fs" where
  "to_csv df filename files =
     (if read_only files \<or> nodes files filename = Some NoAccess then Inl PermissionError
      else Inr (files\<lparr>nodes := (nodes files)(filename \<mapsto> Csv (to_grid df))\<rparr>))"

subsection \<open>Reading\<close>

text \<open>
  \<^verbatim>\<open>pd.read_csv(filename)\<close> with its defaults. No column is parsed as a date: a
  timestamp written by \<open>to_csv\<close> comes back as text. A field that is one of pandas'
  markers of a missing value is missing. A column whose fields are all integers is
  an integer column; one whose fields are all numbers or missing is a float column;
  every other column holds its fields as text. The model reads numbers in plain
  decimal notation, treats a line with more fields than the header as
  \<^verbatim>\<open>ParserError\<close>, pads a shorter line with missing values and takes the header names
  as they stand; pandas' further inferences (booleans, exponents, an implicit index
  column, renamed duplicate headers) are outside the model.
\<close>

definition na_values :: "string list" where
  "na_values =
     [[], ''#N/A'', ''#N/A N/A'', ''#NA'', ''-1.#IND'', ''-1.#QNAN'', ''-NaN'', ''-nan'',
      ''1.#IND'', ''1.#QNAN'', ''<NA>'', ''N/A'', ''NA'', ''NULL'', ''NaN'', ''None'', ''n/a'',
      ''nan'', ''null'']"

fun split_sign :: "string \<Rightarrow> bool \<times> string" where
  "split_sign [] = (False, [])"
| "split_sign (c # cs) =
     (if c = CHR ''-'' then (True, cs) else if c = CHR ''+'' then (False, cs) else (False, c # cs))"

definition all_digits :: "string \<Rightarrow> bool" where
  "all_digits s = (s \<noteq> [] \<and> list_all is_digit s)"

definition parse_int_text :: "string \<Rightarrow> int option" where
  "parse_int_text s =
     (case split_sign s of (neg, ds) \<Rightarrow>
        if all_digits ds
        then Some (if neg then - int_of_digits 0 ds else int_of_digits 0 ds)
        else None)"

definition strip_zeros :: "string \<Rightarrow> string" where
  "strip_zeros ds = (case dropWhile (\<lambda>c. c = CHR ''0'') ds of [] \<Rightarrow> ''0'' | d # r \<Rightarrow> d # r)"

definition parse_float_text :: "string \<Rightarrow> string option" where
  "parse_float_text s =
     (case split_sign s of (neg, ds) \<Rightarrow>
        let ip = takeWhile (\<lambda>c. c \<noteq> CHR ''.'') ds;
            fp = drop (Suc (length ip)) ds
        in if length ip < length ds \<and> all_digits ip \<and> all_digits fp
           then Some ((if neg then ''-'' else []) @ strip_zeros ip @ ''.'' @
                      rev (strip_zeros (rev fp)))
           else None)"

definition parse_field :: "string \<Rightarrow> cell option" where
  "parse_field s =
     (if s \<in> set na_values then Some NA
      else case parse_int_text s of
             Some i \<Rightarrow> Some (IntV i)
           | None \<Rightarrow> map_option FloatV (parse_float_text s))"

definition infer_column :: "string list \<Rightarrow> cell list" where
  "infer_column texts =
     (case those (map parse_field texts) of
        Some cs \<Rightarrow> unify cs
      | None \<Rightarrow> map (\<lambda>s. if s \<in> set na_values then NA else StrV s) texts)"

fun first_field :: "string list \<Rightarrow> string" where
  "first_field [] = []"
| "first_field (f # r) = f"

fun columns_of :: "string list \<Rightarrow> string list list \<Rightarrow> dataframe" where
  "columns_of [] rows = []"
| "columns_of (h # hs) rows =
     (h, infer_column (map first_field rows)) # columns_of hs (map tl rows)"

definition parse_grid :: "string list list \<Rightarrow> exn + dataframe" where
  "parse_grid grid =
     (case filter (\<lambda>r. r \<noteq> []) grid of
        [] \<Rightarrow> Inl EmptyDataError
      | header # rows \<Rightarrow>
          if list_ex (\<lambda>r. length header < length r) rows then Inl ParserError
          else Inr (columns_of header rows))"

definition read_csv :: "string \<Rightarrow> fs \<Rightarrow> exn + dataframe" where
  "read_csv filename files =
     (case nodes files filename of
        None \<Rightarrow> Inl FileNotFoundError
      | Some NoAccess \<Rightarrow> Inl PermissionError
      | Some Undecodable \<Rightarrow> Inl ParserError
      | Some (Csv grid) \<Rightarrow> parse_grid grid)"

section \<open>Merging\<close>

text \<open>
  \<^verbatim>\<open>pd.concat(frames)\<close>: the columns are those of the frames in order of first
  appearance; each column is the concatenation of the frames' columns, a frame that
  lacks the column giving missing values, and is numeric where it can be, as every
  column is; an empty list of frames is refused.
\<close>

fun first_seen :: "'a list \<Rightarrow> 'a list" where
  "first_seen [] = []"
| "first_seen (x # xs) = x # first_seen (filter (\<lambda>y. y \<noteq> x) xs)"

definition column_of :: "string \<Rightarrow> dataframe \<Rightarrow> cell list" where
  "column_of name df = (case map_of df name of None \<Rightarrow> replicate (nrows df) NA | Some cs \<Rightarrow> cs)"

definition pd_concat :: "dataframe list \<Rightarrow> exn + dataframe" where
  "pd_concat frames =
     (if frames = [] then Inl ValueError
      else Inr (map (\<lambda>name. (name, unify (concat (map (column_of name) frames))))
                  (first_seen (concat (map (map fst) frames)))))"

text \<open>
  \<^verbatim>\<open>df.drop_duplicates(subset=names)\<close> keeps, of the rows that agree on the named
  columns, the first. Rows agree when their cells are equal as Python objects:
  missing values equal each other, \<open>1\<close>, \<open>1.0\<close> and \<^verbatim>\<open>True\<close> are equal, and a text is
  never equal to a timestamp. A missing column is a \<^verbatim>\<open>KeyError\<close>; a nested list or
  dict cannot be hashed, which is a \<^verbatim>\<open>TypeError\<close>.
\<close>

fun key_cell :: "cell \<Rightarrow> cell" where
  "key_cell (IntV i) = FloatV (float_repr_of_int i)"
| "key_cell (BoolV b) = FloatV (if b then ''1.0'' else ''0.0'')"
| "key_cell c = c"

fun is_obj_cell :: "cell \<Rightarrow> bool" where
  "is_obj_cell (ObjV j) = True"
| "is_obj_cell _ = False"

fun first_mask :: "'k list \<Rightarrow> 'k list \<Rightarrow> bool list" where
  "first_mask seen [] = []"
| "first_mask seen (k # ks) = (k \<notin> set seen) # first_mask (k # seen) ks"

fun keep :: "bool list \<Rightarrow> 'a list \<Rightarrow> 'a list" where
  "keep (b # bs) (x # xs) = (if b then x # keep bs xs else keep bs xs)"
| "keep _ _ = []"

definition drop_duplicates :: "string list \<Rightarrow> dataframe \<Rightarrow> exn + dataframe" where
  "drop_duplicates names df =
     (case those (map (map_of df) names) of
        None \<Rightarrow> Inl KeyError
      | Some cols \<Rightarrow>
          if list_ex is_obj_cell (concat cols) then Inl TypeError
          else let mask = first_mask [] (rows_of (map (map key_cell) cols))
               in Inr (map (\<lambda>(name, cs). (name, keep mask cs)) df))"

section \<open>The persister\<close>

text \<open>
  \<^verbatim>\<open>save_weather_data\<close>, lines 75 to 86. The inner \<^verbatim>\<open>try\<close> reads the file and merges;
  its handler passes over \<^verbatim>\<open>FileNotFoundError\<close> alone, leaving \<^verbatim>\<open>df\<close> as it was. The
  outer handler catches \<^verbatim>\<open>Exception\<close>, from which every exception class of the model
  derives. The result is \<open>Inl\<close> of an exception that leaves the function, or the new
  file system with the line printed.
\<close>

fun is_Exception :: "exn \<Rightarrow> bool" where
  "is_Exception e = True"

definition merge_existing :: "dataframe \<Rightarrow> string \<Rightarrow> fs \<Rightarrow> exn + dataframe" where
  "merge_existing df filename files =
     (case and_then (read_csv filename files) (\<lambda>existing_df.
             and_then (pd_concat [existing_df, df]) (drop_duplicates [''timestamp'', ''city''])) of
        Inr merged \<Rightarrow> Inr merged
      | Inl e \<Rightarrow> if e = FileNotFoundError then Inr df else Inl e)"

definition save_weather_data :: "dataframe \<Rightarrow> string \<Rightarrow> fs \<Rightarrow> exn + (fs \<times> msg list)" where
  "save_weather_data df filename files =
     (case and_then (merge_existing df filename files) (\<lambda>df'. to_csv df' filename files) of
        Inr files' \<Rightarrow> Inr (files', [Saved_to filename])
      | Inl e \<Rightarrow> if is_Exception e then Inr (files, [Error_saving e]) else Inl e)"

section \<open>The driver\<close>

definition API_KEY :: string where
  "API_KEY = ''c9c53e4ef615028271edf6d041744a9b''"

definition CITIES :: "(string \<times> string) list" where
  "CITIES =
     [(''Dehradun'', ''1273313''), (''Delhi'', ''1273294''), (''Mumbai'', ''1275339''),
      (''Kolkata'', ''1275004''), (''Chennai'', ''1264527''), (''Bengaluru'', ''1277333''),
      (''Hyderabad'', ''1269843''), (''Ahmedabad'', ''1279233''), (''Pune'', ''1259229''),
      (''Jaipur'', ''1269515''), (''Lucknow'', ''1264733''), (''Patna'', ''1260086''),
      (''Bhopal'', ''1275841''), (''Thiruvananthapuram'', ''1269743''),
      (''Guwahati'', ''1271476''), (''Ranchi'', ''1258526''), (''Shillong'', ''1256523''),
      (''Aizawl'', ''1277765''), (''Imphal'', ''1269750''), (''Itanagar'', ''1278341''),
      (''Agartala'', ''1278314''), (''Panaji'', ''1271157''), (''Raipur'', ''1273066''),
      (''Chandigarh'', ''1274746''), (''Srinagar'', ''1255634''), (''Shimla'', ''1256237''),
      (''Gangtok'', ''1254029'')]"

text \<open>
  Lines 127 to 135: the loop over the registry. A frame that was fetched gets its
  \<^verbatim>\<open>city\<close> column and joins the list; \<^verbatim>\<open>None\<close> is reported and skipped; an exception
  that leaves \<^verbatim>\<open>get_weather_data\<close> leaves the loop and the script with it.
\<close>

fun fetch_all ::
  "string \<Rightarrow> net \<Rightarrow> (string \<times> string) list \<Rightarrow> dataframe list \<Rightarrow> msg list
     \<Rightarrow> exn + (dataframe list \<times> msg list)" where
  "fetch_all api_key world [] all_states_weather_data out = Inr (all_states_weather_data, out)"
| "fetch_all api_key world ((city, city_id) # rest) all_states_weather_data out =
     (case get_weather_data api_key city_id world of
        Inl e \<Rightarrow> Inl e
      | Inr (None, printed) \<Rightarrow>
          fetch_all api_key world rest all_states_weather_data
            (out @ [Fetching city] @ printed @ [Failed_to_fetch city])
      | Inr (Some weather_df, printed) \<Rightarrow>
          fetch_all api_key world rest
            (all_states_weather_data @
               [setcol weather_df ''city'' (replicate (nrows weather_df) (StrV city))])
            (out @ [Fetching city] @ printed))"

text \<open>
  The script from line 123 on, for a registry and an API key: \<open>Inl\<close> of the exception
  that ends the process with a traceback, or the file system and the output of a run
  that ends normally.
\<close>

definition run :: "string \<Rightarrow> (string \<times> string) list \<Rightarrow> net \<Rightarrow> fs \<Rightarrow> exn + (fs \<times> msg list)" where
  "run api_key registry world files =
     and_then (fetch_all api_key world registry [] [Fetching_all]) (\<lambda>(all_states_weather_data, out).
       if all_states_weather_data \<noteq> [] then
         and_then (pd_concat all_states_weather_data) (\<lambda>combined_df.
         and_then (save_weather_data combined_df ''india_weather_data.csv'' files)
           (\<lambda>(files', printed). Inr (files', out @ printed)))
       else Inr (files, out @ [No_data_fetched]))"

definition main :: "net \<Rightarrow> fs \<Rightarrow> exn + (fs \<times> msg list)" where
  "main = run API_KEY CITIES"

section \<open>Forecast entries, as the specification reads them\<close>

text \<open>
  The specification speaks of valid responses, of the fields of an entry and of one row
  per entry. These definitions say that in full; none of them is used by the model of
  the script above, and the theorems below compare the two.

  \<open>field j k\<close> is the value under key \<open>k\<close> of the dict \<open>j\<close>, and \<^verbatim>\<open>null\<close> when there
  is none.
\<close>

fun has_key :: "json \<Rightarrow> string \<Rightarrow> bool" where
  "has_key (JObj kvs) k = (map_of kvs k \<noteq> None)"
| "has_key _ k = False"

fun field :: "json \<Rightarrow> string \<Rightarrow> json" where
  "field (JObj kvs) k = (case map_of kvs k of None \<Rightarrow> JNull | Some v \<Rightarrow> v)"
| "field _ k = JNull"

fun is_dict :: "json \<Rightarrow> bool" where
  "is_dict (JObj kvs) = True"
| "is_dict _ = False"

fun first_elem :: "json \<Rightarrow> json" where
  "first_elem (JArr (x # xs)) = x"
| "first_elem _ = JNull"

fun is_dt_txt :: "json \<Rightarrow> bool" where
  "is_dt_txt (JStr s) = (parse_dt_txt s \<noteq> None)"
| "is_dt_txt _ = False"

text \<open>
  A valid entry has a \<^verbatim>\<open>dt_txt\<close> in the API's layout and every required field:
  \<^verbatim>\<open>main.temp\<close>, \<^verbatim>\<open>main.humidity\<close>, \<^verbatim>\<open>main.pressure\<close>, \<^verbatim>\<open>wind.speed\<close>, \<^verbatim>\<open>clouds.all\<close>,
  and a first element of \<^verbatim>\<open>weather\<close> with \<^verbatim>\<open>icon\<close> and \<^verbatim>\<open>description\<close>. \<^verbatim>\<open>visibility\<close>
  is optional, and so are \<^verbatim>\<open>rain\<close> and its \<^verbatim>\<open>3h\<close>; a \<^verbatim>\<open>rain\<close> that is present is a dict.
\<close>

definition rain_ok :: "json \<Rightarrow> bool" where
  "rain_ok item = (if has_key item ''rain'' then is_dict (field item ''rain'') else True)"

definition valid_entry :: "json \<Rightarrow> bool" where
  "valid_entry item =
     (is_dt_txt (field item ''dt_txt'') \<and>
      has_key (field item ''main'') ''temp'' \<and>
      has_key (field item ''main'') ''humidity'' \<and>
      has_key (field item ''main'') ''pressure'' \<and>
      has_key (field item ''wind'') ''speed'' \<and>
      has_key (field item ''clouds'') ''all'' \<and>
      has_key (first_elem (field item ''weather'')) ''icon'' \<and>
      has_key (first_elem (field item ''weather'')) ''description'' \<and>
      rain_ok item)"

fun valid_body :: "json \<Rightarrow> bool" where
  "valid_body (JObj kvs) =
     (case map_of kvs ''list'' of Some (JArr items) \<Rightarrow> list_all valid_entry items | _ \<Rightarrow> False)"
| "valid_body _ = False"

fun entries :: "json \<Rightarrow> json list" where
  "entries (JObj kvs) = (case map_of kvs ''list'' of Some (JArr items) \<Rightarrow> items | _ \<Rightarrow> [])"
| "entries _ = []"

text \<open>The value each column takes from an entry.\<close>

fun entry_time :: "json \<Rightarrow> cell" where
  "entry_time (JStr s) = (case parse_dt_txt s of None \<Rightarrow> NA | Some t \<Rightarrow> TimeV t)"
| "entry_time _ = NA"

definition entry_rain :: "json \<Rightarrow> json" where
  "entry_rain item =
     (if has_key item ''rain'' \<and> has_key (field item ''rain'') ''3h''
      then field (field item ''rain'') ''3h'' else JInt 0)"

definition extractors :: "(json \<Rightarrow> cell) list" where
  "extractors =
     [\<lambda>item. entry_time (field item ''dt_txt''),
      \<lambda>item. cell_of_json (field (field item ''main'') ''temp''),
      \<lambda>item. cell_of_json (field (field item ''main'') ''humidity''),
      \<lambda>item. cell_of_json (field (field item ''wind'') ''speed''),
      \<lambda>item. cell_of_json (field (field item ''main'') ''pressure''),
      \<lambda>item. cell_of_json (field item ''visibility''),
      \<lambda>item. cell_of_json (entry_rain item),
      \<lambda>item. cell_of_json (field (field item ''clouds'') ''all''),
      \<lambda>item. cell_of_json (field (first_elem (field item ''weather'')) ''icon''),
      \<lambda>item. cell_of_json (field (first_elem (field item ''weather'')) ''description'')]"

definition forecast_columns :: "string list" where
  "forecast_columns =
     [''timestamp'', ''temperature'', ''humidity'', ''wind_speed'', ''pressure'', ''visibility'',
      ''rainfall'', ''cloud_cover'', ''icon'', ''description'']"

text \<open>
  The row of an entry in the table of all \<open>items\<close>: its ten values, a number being
  a float where the column as a whole is a float column. \<open>forecast_frame\<close> is the table
  with one such row per entry, in the order of the entries.
\<close>

definition adapt :: "cell list \<Rightarrow> cell \<Rightarrow> cell" where
  "adapt col c = (if float_column col then as_float c else c)"

definition entry_row :: "json list \<Rightarrow> json \<Rightarrow> cell list" where
  "entry_row items item = map (\<lambda>f. adapt (map f items) (f item)) extractors"

definition forecast_frame :: "json list \<Rightarrow> dataframe" where
  "forecast_frame items =
     zip forecast_columns (map (\<lambda>f. map (\<lambda>item. adapt (map f items) (f item)) items) extractors)"

text \<open>An answer of the network to which the fetcher returns a table.\<close>

definition valid_response :: "response option \<Rightarrow> bool" where
  "valid_response a =
     (case a of
        None \<Rightarrow> False
      | Some r \<Rightarrow> \<not> (400 \<le> status_code r \<and> status_code r < 600) \<and>
                 (case body r of None \<Rightarrow> False | Some b \<Rightarrow> valid_body b))"

definition request_of :: "string \<Rightarrow> string \<Rightarrow> net \<Rightarrow> response option" where
  "request_of api_key city_id world =
     world ''http://api.openweathermap.org/data/2.5/forecast''
       [(''id'', city_id), (''appid'', api_key), (''units'', ''metric'')]"

definition response_entries :: "response option \<Rightarrow> json list" where
  "response_entries a =
     (case a of Some r \<Rightarrow> (case body r of Some b \<Rightarrow> entries b | None \<Rightarrow> []) | None \<Rightarrow> [])"

section \<open>Example inputs\<close>

text \<open>
  A forecast entry for noon of 1 June 2024 without \<^verbatim>\<open>visibility\<close> and without
  \<^verbatim>\<open>rain\<close>, and one for three hours later with both.
\<close>

definition delhi_entry :: json where
  "delhi_entry =
     JObj [(''dt_txt'', JStr ''2024-06-01 12:00:00''),
           (''main'', JObj [(''temp'', JFloat ''30.5''), (''humidity'', JInt 40),
                            (''pressure'', JInt 1008)]),
           (''wind'', JObj [(''speed'', JFloat ''3.2'')]),
           (''clouds'', JObj [(''all'', JInt 10)]),
           (''weather'', JArr [JObj [(''icon'', JStr ''01d''),
                                     (''description'', JStr ''clear sky'')]])]"

definition rainy_entry :: json where
  "rainy_entry =
     JObj [(''dt_txt'', JStr ''2024-06-01 15:00:00''),
           (''main'', JObj [(''temp'', JInt 29), (''humidity'', JInt 55),
                            (''pressure'', JInt 1006)]),
           (''wind'', JObj [(''speed'', JFloat ''4.1'')]),
           (''visibility'', JInt 10000),
           (''rain'', JObj [(''3h'', JFloat ''1.5'')]),
           (''clouds'', JObj [(''all'', JInt 75)]),
           (''weather'', JArr [JObj [(''icon'', JStr ''10d''),
                                     (''description'', JStr ''light rain'')]])]"

text \<open>An entry without \<^verbatim>\<open>main\<close>.\<close>

definition no_main_entry :: json where
  "no_main_entry =
     JObj [(''dt_txt'', JStr ''2024-06-01 12:00:00''),
           (''wind'', JObj [(''speed'', JFloat ''3.2'')]),
           (''clouds'', JObj [(''all'', JInt 10)]),
           (''weather'', JArr [JObj [(''icon'', JStr ''01d''),
                                     (''description'', JStr ''clear sky'')]])]"

definition delhi_registry :: "(string \<times> string) list" where
  "delhi_registry = [(''Delhi'', ''1273294'')]"

text \<open>
  Networks: one that answers the request for Delhi, made with the script's URL, key
  and units, with the first entry and nothing else; one that answers every request
  with both entries; one that answers every request with the entry without
  \<^verbatim>\<open>main\<close>; one that is down; and one where Delhi answers with both entries, Mumbai
  with status 404, Kolkata with a page that is not JSON, and nothing else answers.
\<close>

definition delhi_world :: net where
  "delhi_world url params =
     (if url = ''http://api.openweathermap.org/data/2.5/forecast'' \<and>
         params = [(''id'', ''1273294''), (''appid'', API_KEY), (''units'', ''metric'')]
      then Some (Response 200 (Some (JObj [(''list'', JArr [delhi_entry])])))
      else None)"

definition two_entry_world :: net where
  "two_entry_world url params =
     Some (Response 200 (Some (JObj [(''cod'', JStr ''200''),
                                     (''list'', JArr [delhi_entry, rainy_entry])])))"

definition no_main_world :: net where
  "no_main_world url params = Some (Response 200 (Some (JObj [(''list'', JArr [no_main_entry])])))"

definition dead_world :: net where
  "dead_world url params = None"

definition mixed_world :: net where
  "mixed_world url params =
     (case map_of params ''id'' of
        None \<Rightarrow> None
      | Some city_id \<Rightarrow>
          if city_id = ''1273294''
            then Some (Response 200 (Some (JObj [(''list'', JArr [delhi_entry, rainy_entry])])))
          else if city_id = ''1275339'' then Some (Response 404 (Some (JObj [(''cod'', JStr ''404'')])))
          else if city_id = ''1275004'' then Some (Response 200 None)
          else None)"

text \<open>
  File systems: an empty one; one that holds an earlier output file with a row for
  Delhi at noon of 1 June 2024 and a temperature of 25.0; one whose output file has
  no bytes.
\<close>

definition no_files :: fs where
  "no_files = \<lparr>nodes = Map.empty, read_only = False\<rparr>"

definition earlier_grid :: "string list list" where
  "earlier_grid =
     [[''timestamp'', ''temperature'', ''humidity'', ''wind_speed'', ''pressure'', ''visibility'',
       ''rainfall'', ''cloud_cover'', ''icon'', ''description'', ''city''],
      [''2024-06-01 12:00:00'', ''25.0'', ''60'', ''1.0'', ''1010'', [], ''0'', ''20'',
       ''02d'', ''few clouds'', ''Delhi'']]"

definition earlier_files :: fs where
  "earlier_files =
     \<lparr>nodes = [''india_weather_data.csv'' \<mapsto> Csv earlier_grid], read_only = False\<rparr>"

definition empty_file :: fs where
  "empty_file = \<lparr>nodes = [''india_weather_data.csv'' \<mapsto> Csv []], read_only = False\<rparr>"

text \<open>
  Tables: the one the driver hands to the persister after fetching the first entry
  for Delhi, and one with two rows for the same city and time.
\<close>

definition delhi_frame :: dataframe where
  "delhi_frame =
     [(''timestamp'', [TimeV (Timestamp 2024 6 1 12 0 0)]),
      (''temperature'', [FloatV ''30.5'']),
      (''humidity'', [IntV 40]),
      (''wind_speed'', [FloatV ''3.2'']),
      (''pressure'', [IntV 1008]),
      (''visibility'', [NA]),
      (''rainfall'', [IntV 0]),
      (''cloud_cover'', [IntV 10]),
      (''icon'', [StrV ''01d'']),
      (''description'', [StrV ''clear sky'']),
      (''city'', [StrV ''Delhi''])]"

definition twice_frame :: dataframe where
  "twice_frame =
     [(''timestamp'', [TimeV (Timestamp 2024 6 1 12 0 0), TimeV (Timestamp 2024 6 1 12 0 0)]),
      (''temperature'', [FloatV ''30.5'', FloatV ''31.5'']),
      (''city'', [StrV ''Delhi'', StrV ''Delhi''])]"

text \<open>A file system in which nothing can be written.\<close>

definition locked_files :: fs where
  "locked_files = \<lparr>nodes = [''india_weather_data.csv'' \<mapsto> NoAccess], read_only = True\<rparr>"

section \<open>Outcomes of a fetch, as the specification reads them\<close>

text \<open>
  A fetch fails when \<open>get_weather_data\<close> returns the sentinel \<^verbatim>\<open>None\<close>. An answer of
  the network is recoverable when the request fails as a request or the response is
  valid: there is no response, the status is an error status, the body is not JSON, or
  the body is a valid one.
\<close>

definition fetch_fails :: "string \<Rightarrow> net \<Rightarrow> string \<Rightarrow> bool" where
  "fetch_fails api_key world city_id =
     (case get_weather_data api_key city_id world of Inr (None, out) \<Rightarrow> True | _ \<Rightarrow> False)"

definition recoverable_answer :: "response option \<Rightarrow> bool" where
  "recoverable_answer a =
     (case a of
        None \<Rightarrow> True
      | Some r \<Rightarrow>
          if 400 \<le> status_code r \<and> status_code r < 600 then True
          else (case body r of None \<Rightarrow> True | Some b \<Rightarrow> valid_body b))"

text \<open>
  The cities whose fetch returned a table, each with its table, in registry order.
\<close>

definition fetched :: "string \<Rightarrow> net \<Rightarrow> (string \<times> string) list \<Rightarrow> (string \<times> dataframe) list" where
  "fetched api_key world registry =
     concat (map (\<lambda>(city, city_id).
                    case get_weather_data api_key city_id world of
                      Inr (Some df, out) \<Rightarrow> [(city, df)]
                    | _ \<Rightarrow> [])
               registry)"

text \<open>
  The lines and the bytes of the file at \<open>path\<close> after a run or a save that returned,
  and what it printed, for stating what a run leaves behind.
\<close>

definition output_lines :: "string \<Rightarrow> exn + (fs \<times> msg list) \<Rightarrow> string list option" where
  "output_lines path result =
     (case result of
        Inl e \<Rightarrow> None
      | Inr (files, out) \<Rightarrow>
          (case nodes files path of Some (Csv grid) \<Rightarrow> Some (map csv_line grid) | _ \<Rightarrow> None))"

definition output_text :: "string \<Rightarrow> exn + (fs \<times> msg list) \<Rightarrow> string option" where
  "output_text path result =
     (case result of
        Inl e \<Rightarrow> None
      | Inr (files, out) \<Rightarrow>
          (case nodes files path of Some (Csv grid) \<Rightarrow> Some (csv_text grid) | _ \<Rightarrow> None))"

definition printed :: "exn + (fs \<times> msg list) \<Rightarrow> msg list option" where
  "printed result = (case result of Inl e \<Rightarrow> None | Inr (files, out) \<Rightarrow> Some out)"

section \<open>Lemmas on the fetcher\<close>

lemma and_then_simps [simp]:
  "and_then (Inl e) f = Inl e"
  "and_then (Inr v) f = f v"
  by (simp_all add: and_then_def)

lemma getitem_has_key: "has_key j k \<Longrightarrow> getitem j k = Inr (field j k)"
  by (cases j) auto

lemma dict_get_is_dict:
  "is_dict j \<Longrightarrow> dict_get j k d = Inr (if has_key j k then field j k else d)"
  by (cases j) auto

lemma getitem0_first_elem:
  "has_key (first_elem w) k \<Longrightarrow> getitem0 w = Inr (first_elem w)"
  by (cases w rule: first_elem.cases) auto

lemma loop_body_valid:
  assumes "valid_entry item"
  shows "loop_body item ls = Inr (ls
     \<lparr>timestamps := timestamps ls @ [field item ''dt_txt''],
      temperatures := temperatures ls @ [field (field item ''main'') ''temp''],
      humidity := humidity ls @ [field (field item ''main'') ''humidity''],
      wind_speed := wind_speed ls @ [field (field item ''wind'') ''speed''],
      pressure := pressure ls @ [field (field item ''main'') ''pressure''],
      visibility := visibility ls @ [field item ''visibility''],
      rainfall := rainfall ls @ [entry_rain item],
      cloud_cover := cloud_cover ls @ [field (field item ''clouds'') ''all''],
      icons := icons ls @ [field (first_elem (field item ''weather'')) ''icon''],
      descriptions := descriptions ls @ [field (first_elem (field item ''weather'')) ''description'']\<rparr>)"
proof -
  from assms have m: "has_key item ''main''" and w: "has_key item ''wind''"
    and c: "has_key item ''clouds''" and we: "has_key item ''weather''"
    and d: "has_key item ''dt_txt''"
    unfolding valid_entry_def
    by (cases item; auto split: option.splits)+
  from m have dict: "is_dict item" by (cases item) auto
  have vis: "dict_get item ''visibility'' JNull = Inr (field item ''visibility'')"
    using dict by (cases item) (auto split: option.splits)
  have rain: "and_then (dict_get item ''rain'' (JObj [])) (\<lambda>r. dict_get r ''3h'' (JInt 0)) = Inr (entry_rain item)"
    using dict assms unfolding valid_entry_def rain_ok_def entry_rain_def
    by (cases item) (auto simp: dict_get_is_dict split: option.splits if_splits)
  have w0: "getitem0 (field item ''weather'') = Inr (first_elem (field item ''weather''))"
    using assms unfolding valid_entry_def by (auto intro: getitem0_first_elem)
  show ?thesis
    using assms m w c we d vis rain w0 unfolding valid_entry_def loop_body_def
    by (simp add: getitem_has_key Let_def)
qed

lemma for_items_valid:
  "list_all valid_entry items \<Longrightarrow>
   for_items items ls = Inr (ls
     \<lparr>timestamps := timestamps ls @ map (\<lambda>item. field item ''dt_txt'') items,
      temperatures := temperatures ls @ map (\<lambda>item. field (field item ''main'') ''temp'') items,
      humidity := humidity ls @ map (\<lambda>item. field (field item ''main'') ''humidity'') items,
      wind_speed := wind_speed ls @ map (\<lambda>item. field (field item ''wind'') ''speed'') items,
      pressure := pressure ls @ map (\<lambda>item. field (field item ''main'') ''pressure'') items,
      visibility := visibility ls @ map (\<lambda>item. field item ''visibility'') items,
      rainfall := rainfall ls @ map entry_rain items,
      cloud_cover := cloud_cover ls @ map (\<lambda>item. field (field item ''clouds'') ''all'') items,
      icons := icons ls @ map (\<lambda>item. field (first_elem (field item ''weather'')) ''icon'') items,
      descriptions := descriptions ls @
        map (\<lambda>item. field (first_elem (field item ''weather'')) ''description'') items\<rparr>)"
proof (induction items arbitrary: ls)
  case Nil
  then show ?case by simp
next
  case (Cons item items)
  then show ?case by (simp add: loop_body_valid)
qed

lemma unify_adapt: "unify cs = map (adapt cs) cs"
proof (cases "float_column cs")
  case True
  then have "adapt cs = as_float"
    by (intro ext) (simp add: adapt_def)
  with True show ?thesis
    by (simp add: unify_def)
next
  case False
  then have "adapt cs = (\<lambda>c. c)"
    by (intro ext) (simp add: adapt_def)
  with False show ?thesis
    by (simp add: unify_def)
qed

lemma dt_cells_not_float:
  "list_all is_dt_txt js \<Longrightarrow> \<not> float_column (map cell_of_json js)"
  by (cases js; cases "hd js") (auto simp: float_column_def)

lemma dt_times_not_float:
  "list_all is_dt_txt js \<Longrightarrow> \<not> float_column (map entry_time js)"
  by (cases js; cases "hd js") (auto simp: float_column_def split: option.splits)

lemma to_datetime_cells:
  "list_all is_dt_txt js \<Longrightarrow>
   those (map to_datetime_cell (map cell_of_json js)) = Some (map entry_time js)"
proof (induction js)
  case Nil
  then show ?case by simp
next
  case (Cons j js)
  then show ?case by (cases j) (auto split: option.splits)
qed

lemma to_datetime_valid:
  assumes "list_all is_dt_txt js"
  shows "to_datetime (unify (map cell_of_json js)) = Inr (map entry_time js)"
  using assms dt_cells_not_float [OF assms]
  by (simp add: to_datetime_def unify_def to_datetime_cells del: map_map)

lemma valid_entries_dt:
  "list_all valid_entry items \<Longrightarrow> list_all is_dt_txt (map (\<lambda>item. field item ''dt_txt'') items)"
  by (induction items) (auto simp: valid_entry_def)

lemma fetch_frame_valid:
  assumes ok: "valid_response (request_of api_key city_id world)"
  shows "fetch_frame api_key city_id world =
           Inr (forecast_frame (response_entries (request_of api_key city_id world)))"
proof -
  from ok obtain r b where r: "request_of api_key city_id world = Some r"
    and st: "\<not> (400 \<le> status_code r \<and> status_code r < 600)"
    and b: "body r = Some b" and vb: "valid_body b"
    by (auto simp: valid_response_def split: option.splits)
  from vb obtain kvs items where kvs: "b = JObj kvs"
    and l: "map_of kvs ''list'' = Some (JArr items)" and v: "list_all valid_entry items"
    by (cases b) (auto split: option.splits json.splits)
  have e: "response_entries (request_of api_key city_id world) = items"
    by (simp add: response_entries_def r b kvs l)
  have dt: "list_all is_dt_txt (map (\<lambda>item. field item ''dt_txt'') items)"
    using v by (rule valid_entries_dt)
  have td: "to_datetime (unify (map cell_of_json (map (\<lambda>item. field item ''dt_txt'') items)))
              = Inr (map entry_time (map (\<lambda>item. field item ''dt_txt'') items))"
    using dt by (rule to_datetime_valid)
  have nf: "\<not> float_column (map entry_time (map (\<lambda>item. field item ''dt_txt'') items))"
    using dt by (rule dt_times_not_float)
  have w: "world ''http://api.openweathermap.org/data/2.5/forecast''
             [(''id'', city_id), (''appid'', api_key), (''units'', ''metric'')] = Some r"
    using r by (simp add: request_of_def)
  show ?thesis
    unfolding e fetch_frame_def
    using w st b kvs l td nf
    by (simp add: requests_get_def raise_for_status_def response_json_def for_items_valid [OF v]
        empty_lists_def DataFrame_def getcol_def setcol_def forecast_frame_def extractors_def
        forecast_columns_def unify_adapt adapt_def comp_def)
qed

lemma get_weather_data_valid:
  "valid_response (request_of api_key city_id world) \<Longrightarrow>
   get_weather_data api_key city_id world =
     Inr (Some (forecast_frame (response_entries (request_of api_key city_id world))), [])"
  by (simp add: get_weather_data_def fetch_frame_valid)

lemma map2_map_same: "map2 h (map f xs) (map g xs) = map (\<lambda>x. h (f x) (g x)) xs"
  by (induction xs) auto

lemma rows_of_maps:
  "rows_of (map (\<lambda>g. map g xs) (g # gs)) = map (\<lambda>x. map (\<lambda>g. g x) (g # gs)) xs"
proof (induction gs arbitrary: g)
  case Nil
  then show ?case by simp
next
  case (Cons g' gs)
  have "rows_of (map (\<lambda>g. map g xs) (g # g' # gs)) =
          map2 (#) (map g xs) (rows_of (map (\<lambda>g. map g xs) (g' # gs)))"
    by simp
  also have "\<dots> = map2 (#) (map g xs) (map (\<lambda>x. map (\<lambda>g. g x) (g' # gs)) xs)"
    by (simp only: Cons.IH)
  also have "\<dots> = map (\<lambda>x. map (\<lambda>g. g x) (g # g' # gs)) xs"
    by (simp add: map2_map_same)
  finally show ?case .
qed

lemma forecast_frame_names: "map fst (forecast_frame items) = forecast_columns"
  by (simp add: forecast_frame_def forecast_columns_def extractors_def)

lemma forecast_frame_rows:
  "rows_of (map snd (forecast_frame items)) = map (entry_row items) items"
proof -
  define gs where "gs = map (\<lambda>f item. adapt (map f items) (f item)) extractors"
  have ne: "gs = hd gs # tl gs"
    by (simp add: gs_def extractors_def)
  have "map snd (forecast_frame items) = map (\<lambda>g. map g items) gs"
    by (simp add: forecast_frame_def forecast_columns_def extractors_def gs_def)
  also have "rows_of \<dots> = map (\<lambda>x. map (\<lambda>g. g x) gs) items"
    by (metis ne rows_of_maps)
  also have "\<dots> = map (entry_row items) items"
    by (simp add: gs_def entry_row_def comp_def)
  finally show ?thesis .
qed

lemma forecast_frame_nrows: "nrows (forecast_frame items) = length items"
  by (simp add: nrows_def forecast_frame_def forecast_columns_def extractors_def)

section \<open>One row per entry\<close>

text \<open>
  C4. For a successful response whose body holds a list of valid forecast entries,
  \<open>get_weather_data\<close> returns a table, prints nothing, and the rows of the table are
  the rows of the entries, one per entry and in the order of the list; the columns are
  the ten forecast columns.
\<close>

theorem get_weather_data_one_row_per_entry:
  assumes "valid_response (request_of api_key city_id world)"
  shows "\<exists>df. get_weather_data api_key city_id world = Inr (Some df, []) \<and>
              map fst df = forecast_columns \<and>
              nrows df = length (response_entries (request_of api_key city_id world)) \<and>
              rows_of (map snd df) =
                map (entry_row (response_entries (request_of api_key city_id world)))
                  (response_entries (request_of api_key city_id world))"
  using get_weather_data_valid [OF assms]
  by (simp add: forecast_frame_names forecast_frame_rows forecast_frame_nrows)

theorem get_weather_data_one_row_per_entry_witness:
  "valid_response (request_of API_KEY ''1273294'' two_entry_world) \<and>
   response_entries (request_of API_KEY ''1273294'' two_entry_world) = [delhi_entry, rainy_entry] \<and>
   (\<exists>df. get_weather_data API_KEY ''1273294'' two_entry_world = Inr (Some df, []) \<and>
         nrows df = 2 \<and>
         rows_of (map snd df) =
           [[TimeV (Timestamp 2024 6 1 12 0 0), FloatV ''30.5'', IntV 40, FloatV ''3.2'', IntV 1008,
             NA, FloatV ''0.0'', IntV 10, StrV ''01d'', StrV ''clear sky''],
            [TimeV (Timestamp 2024 6 1 15 0 0), FloatV ''29.0'', IntV 55, FloatV ''4.1'', IntV 1006,
             FloatV ''10000.0'', FloatV ''1.5'', IntV 75, StrV ''10d'', StrV ''light rain'']])"
proof -
  have v: "valid_response (request_of API_KEY ''1273294'' two_entry_world)"
    by code_simp
  have e: "response_entries (request_of API_KEY ''1273294'' two_entry_world) =
             [delhi_entry, rainy_entry]"
    by code_simp
  have r: "map (entry_row [delhi_entry, rainy_entry]) [delhi_entry, rainy_entry] =
           [[TimeV (Timestamp 2024 6 1 12 0 0), FloatV ''30.5'', IntV 40, FloatV ''3.2'', IntV 1008,
             NA, FloatV ''0.0'', IntV 10, StrV ''01d'', StrV ''clear sky''],
            [TimeV (Timestamp 2024 6 1 15 0 0), FloatV ''29.0'', IntV 55, FloatV ''4.1'', IntV 1006,
             FloatV ''10000.0'', FloatV ''1.5'', IntV 75, StrV ''10d'', StrV ''light rain'']]"
    by code_simp
  from get_weather_data_one_row_per_entry [OF v] obtain df where
    g: "get_weather_data API_KEY ''1273294'' two_entry_world = Inr (Some df, [])" and
    n: "nrows df = length (response_entries (request_of API_KEY ''1273294'' two_entry_world))" and
    w: "rows_of (map snd df) =
          map (entry_row (response_entries (request_of API_KEY ''1273294'' two_entry_world)))
            (response_entries (request_of API_KEY ''1273294'' two_entry_world))"
    by blast
  from n have n2: "nrows df = 2"
    unfolding e by simp
  from w have w2: "rows_of (map snd df) =
           [[TimeV (Timestamp 2024 6 1 12 0 0), FloatV ''30.5'', IntV 40, FloatV ''3.2'', IntV 1008,
             NA, FloatV ''0.0'', IntV 10, StrV ''01d'', StrV ''clear sky''],
            [TimeV (Timestamp 2024 6 1 15 0 0), FloatV ''29.0'', IntV 55, FloatV ''4.1'', IntV 1006,
             FloatV ''10000.0'', FloatV ''1.5'', IntV 75, StrV ''10d'', StrV ''light rain'']]"
    unfolding e r .
  from v e g n2 w2 show ?thesis
    by blast
qed

section \<open>The end-to-end example\<close>

text \<open>
  C8. With the registry holding Delhi alone, no output file, and a response with the
  one entry of the specification's example (no \<^verbatim>\<open>visibility\<close>, no \<^verbatim>\<open>rain\<close>), the run
  ends normally and the output file holds the header line and exactly one data line,
  \<^verbatim>\<open>2024-06-01 12:00:00,30.5,40,3.2,1008,,0,10,01d,clear sky,Delhi\<close>.
\<close>

theorem end_to_end_delhi:
  "output_lines ''india_weather_data.csv'' (run API_KEY delhi_registry delhi_world no_files) =
     Some [''timestamp,temperature,humidity,wind_speed,pressure,visibility,rainfall,cloud_cover,icon,description,city'',
           ''2024-06-01 12:00:00,30.5,40,3.2,1008,,0,10,01d,clear sky,Delhi''] \<and>
   output_text ''india_weather_data.csv'' (run API_KEY delhi_registry delhi_world no_files) =
     Some (''timestamp,temperature,humidity,wind_speed,pressure,visibility,rainfall,cloud_cover,icon,description,city'' @
           [CHR 0x0A] @
           ''2024-06-01 12:00:00,30.5,40,3.2,1008,,0,10,01d,clear sky,Delhi'' @ [CHR 0x0A]) \<and>
   printed (run API_KEY delhi_registry delhi_world no_files) =
     Some [Fetching_all, Fetching ''Delhi'', Saved_to ''india_weather_data.csv'']"
  by code_simp

section \<open>Saving twice\<close>

text \<open>
  C2. The table that the driver builds from the example entry for Delhi, saved twice:
  the first save writes one data line; the second reads it back, finds its timestamp
  to be a text and the new one a timestamp, keeps both rows, and writes the same data
  line twice.
\<close>

theorem save_twice_duplicates:
  "and_then (fetch_all API_KEY delhi_world delhi_registry [] [Fetching_all])
     (\<lambda>(frames, out). pd_concat frames) = Inr delhi_frame \<and>
   output_lines ''india_weather_data.csv''
     (save_weather_data delhi_frame ''india_weather_data.csv'' no_files) =
     Some [''timestamp,temperature,humidity,wind_speed,pressure,visibility,rainfall,cloud_cover,icon,description,city'',
           ''2024-06-01 12:00:00,30.5,40,3.2,1008,,0,10,01d,clear sky,Delhi''] \<and>
   output_lines ''india_weather_data.csv''
     (and_then (save_weather_data delhi_frame ''india_weather_data.csv'' no_files)
        (\<lambda>(files1, out1). save_weather_data delhi_frame ''india_weather_data.csv'' files1)) =
     Some [''timestamp,temperature,humidity,wind_speed,pressure,visibility,rainfall,cloud_cover,icon,description,city'',
           ''2024-06-01 12:00:00,30.5,40,3.2,1008,,0,10,01d,clear sky,Delhi'',
           ''2024-06-01 12:00:00,30.5,40,3.2,1008,,0,10,01d,clear sky,Delhi'']"
  by code_simp

section \<open>A fetch over an earlier file\<close>

text \<open>
  C3. The earlier file holds a row for Delhi at noon of 1 June 2024 with temperature
  25.0; the new fetch brings a row for the same city and time with temperature 30.5.
  The file written holds both rows, the earlier first: the two are not recognised as
  duplicates, since the timestamp read from the file is a text and the fetched one a
  timestamp.
\<close>

theorem run_over_earlier_keeps_both:
  "output_lines ''india_weather_data.csv'' (run API_KEY delhi_registry delhi_world earlier_files) =
     Some [''timestamp,temperature,humidity,wind_speed,pressure,visibility,rainfall,cloud_cover,icon,description,city'',
           ''2024-06-01 12:00:00,25.0,60,1.0,1010,,0,20,02d,few clouds,Delhi'',
           ''2024-06-01 12:00:00,30.5,40,3.2,1008,,0,10,01d,clear sky,Delhi'']"
  by code_simp

section \<open>A malformed entry\<close>

lemma main_no_main_eval:
  "case main no_main_world no_files of Inl e \<Rightarrow> e = KeyError | Inr r \<Rightarrow> False"
  by code_simp

text \<open>
  C1, counterexample. Every city answers with an entry that has no \<^verbatim>\<open>main\<close>: the
  lookup raises \<^verbatim>\<open>KeyError\<close>, which is not a \<^verbatim>\<open>RequestException\<close>; it leaves
  \<open>get_weather_data\<close> at the first city and ends the script.
\<close>

theorem main_crashes_on_missing_main:
  "main no_main_world no_files = Inl KeyError"
  using main_no_main_eval
  by (cases "main no_main_world no_files") simp_all

section \<open>An output file without bytes\<close>

text \<open>
  C7, counterexample. The output file exists and is empty: reading it fails with
  \<^verbatim>\<open>EmptyDataError\<close>, the save reports the error and returns, and the file is not
  written: it does not hold the new table.
\<close>

theorem save_over_empty_file_writes_nothing:
  "read_csv ''india_weather_data.csv'' empty_file = Inl EmptyDataError \<and>
   output_lines ''india_weather_data.csv''
     (save_weather_data delhi_frame ''india_weather_data.csv'' empty_file) = Some [] \<and>
   printed (save_weather_data delhi_frame ''india_weather_data.csv'' empty_file) =
     Some [Error_saving EmptyDataError] \<and>
   Some [] \<noteq> Some (map csv_line (to_grid delhi_frame))"
  by code_simp

section \<open>Lemmas on the persister\<close>

lemma parse_grid_not_missing: "parse_grid grid \<noteq> Inl FileNotFoundError"
  by (auto simp: parse_grid_def split: list.splits)

lemma read_csv_missing:
  "read_csv filename files = Inl FileNotFoundError \<longleftrightarrow> nodes files filename = None"
  by (auto simp: read_csv_def parse_grid_not_missing split: option.splits node.splits)

lemma merge_existing_missing:
  "read_csv filename files = Inl FileNotFoundError \<Longrightarrow> merge_existing df filename files = Inr df"
  by (simp add: merge_existing_def)

lemma merge_existing_unreadable:
  "read_csv filename files = Inl e \<Longrightarrow> e \<noteq> FileNotFoundError \<Longrightarrow>
   merge_existing df filename files = Inl e"
  by (simp add: merge_existing_def)

lemma save_missing:
  assumes "read_csv filename files = Inl FileNotFoundError" and "\<not> read_only files"
  shows "save_weather_data df filename files =
           Inr (files\<lparr>nodes := (nodes files)(filename \<mapsto> Csv (to_grid df))\<rparr>, [Saved_to filename])"
proof -
  from assms(1) have "nodes files filename = None"
    by (simp add: read_csv_missing)
  with assms show ?thesis
    by (simp add: save_weather_data_def merge_existing_missing to_csv_def)
qed

lemma save_unreadable:
  assumes "read_csv filename files = Inl e" and "e \<noteq> FileNotFoundError"
  shows "save_weather_data df filename files = Inr (files, [Error_saving e])"
  using assms by (simp add: save_weather_data_def merge_existing_unreadable)

lemma save_returns: "\<exists>files' out. save_weather_data df filename files = Inr (files', out)"
  by (simp add: save_weather_data_def split: sum.splits)

lemma save_after_failed_read:
  assumes "read_csv filename files = Inl e"
  shows "(\<exists>out. save_weather_data df filename files = Inr (files, out)) \<or>
         save_weather_data df filename files =
           Inr (files\<lparr>nodes := (nodes files)(filename \<mapsto> Csv (to_grid df))\<rparr>, [Saved_to filename])"
proof (cases "e = FileNotFoundError")
  case True
  with assms have m: "merge_existing df filename files = Inr df"
    by (simp add: merge_existing_missing)
  show ?thesis
    by (simp add: save_weather_data_def m to_csv_def)
next
  case False
  with assms show ?thesis
    by (simp add: save_unreadable)
qed

lemma length_render_column: "length (render_column cs) = length cs"
  by (simp add: render_column_def)

lemma rows_of_nth:
  assumes "cols \<noteq> []" and "\<forall>c \<in> set cols. length c = n"
  shows "length (rows_of cols) = n \<and> (\<forall>i < n. rows_of cols ! i = map (\<lambda>c. c ! i) cols)"
  using assms
proof (induction cols rule: rows_of.induct)
  case 1
  then show ?case by simp
next
  case (2 c)
  then show ?case by simp
next
  case (3 c c' cs)
  then show ?case by simp
qed

section \<open>Saving when there is no file\<close>

text \<open>
  C9. When no file exists at the path (and the directory can be written),
  \<open>save_weather_data\<close> writes the table as it is: the header is the column names, and
  for a table whose columns have equal length the data lines are its rows in order,
  each the rendering of its cells; nothing is removed. And whenever reading the
  file fails, the file afterwards is either untouched or this very table: rows are
  only ever removed after a file was read.
\<close>

theorem save_without_file_is_verbatim:
  assumes "nodes files filename = None" and "\<not> read_only files"
  shows "save_weather_data df filename files =
           Inr (files\<lparr>nodes := (nodes files)(filename \<mapsto> Csv (to_grid df))\<rparr>, [Saved_to filename]) \<and>
         hd (to_grid df) = map fst df \<and>
         (df \<noteq> [] \<and> (\<forall>col \<in> set df. length (snd col) = nrows df) \<longrightarrow>
            length (tl (to_grid df)) = nrows df \<and>
            (\<forall>i < nrows df. tl (to_grid df) ! i = map (\<lambda>col. render_column (snd col) ! i) df)) \<and>
         (\<forall>files' e. read_csv filename files' = Inl e \<longrightarrow>
            (\<exists>out. save_weather_data df filename files' = Inr (files', out)) \<or>
            save_weather_data df filename files' =
              Inr (files'\<lparr>nodes := (nodes files')(filename \<mapsto> Csv (to_grid df))\<rparr>,
                   [Saved_to filename]))"
proof -
  from assms(1) have "read_csv filename files = Inl FileNotFoundError"
    by (simp add: read_csv_missing)
  then have a: "save_weather_data df filename files =
           Inr (files\<lparr>nodes := (nodes files)(filename \<mapsto> Csv (to_grid df))\<rparr>, [Saved_to filename])"
    using assms(2) by (rule save_missing)
  have b: "hd (to_grid df) = map fst df"
    by (simp add: to_grid_def)
  have c: "length (tl (to_grid df)) = nrows df \<and>
            (\<forall>i < nrows df. tl (to_grid df) ! i = map (\<lambda>col. render_column (snd col) ! i) df)"
    if "df \<noteq> []" and "\<forall>col \<in> set df. length (snd col) = nrows df"
  proof -
    have "map (\<lambda>col. render_column (snd col)) df \<noteq> []"
      using that(1) by simp
    moreover have "\<forall>c \<in> set (map (\<lambda>col. render_column (snd col)) df). length c = nrows df"
      using that(2) by (auto simp: length_render_column)
    ultimately have "length (rows_of (map (\<lambda>col. render_column (snd col)) df)) = nrows df \<and>
        (\<forall>i < nrows df. rows_of (map (\<lambda>col. render_column (snd col)) df) ! i =
           map (\<lambda>c. c ! i) (map (\<lambda>col. render_column (snd col)) df))"
      by (rule rows_of_nth)
    then show ?thesis
      by (simp add: to_grid_def comp_def)
  qed
  have d: "\<forall>files' e. read_csv filename files' = Inl e \<longrightarrow>
            (\<exists>out. save_weather_data df filename files' = Inr (files', out)) \<or>
            save_weather_data df filename files' =
              Inr (files'\<lparr>nodes := (nodes files')(filename \<mapsto> Csv (to_grid df))\<rparr>,
                   [Saved_to filename])"
    using save_after_failed_read by blast
  from a b c d show ?thesis
    by blast
qed

theorem save_without_file_is_verbatim_witness:
  "nodes no_files ''india_weather_data.csv'' = None \<and> \<not> read_only no_files \<and>
   save_weather_data twice_frame ''india_weather_data.csv'' no_files =
     Inr (no_files\<lparr>nodes := (nodes no_files)(''india_weather_data.csv'' \<mapsto> Csv (to_grid twice_frame))\<rparr>,
          [Saved_to ''india_weather_data.csv'']) \<and>
   map csv_line (to_grid twice_frame) =
     [''timestamp,temperature,city'',
      ''2024-06-01 12:00:00,30.5,Delhi'',
      ''2024-06-01 12:00:00,31.5,Delhi'']"
proof -
  have h1: "nodes no_files ''india_weather_data.csv'' = None"
    by (simp add: no_files_def)
  have h2: "\<not> read_only no_files"
    by (simp add: no_files_def)
  have l: "map csv_line (to_grid twice_frame) =
     [''timestamp,temperature,city'',
      ''2024-06-01 12:00:00,30.5,Delhi'',
      ''2024-06-01 12:00:00,31.5,Delhi'']"
    by code_simp
  from save_without_file_is_verbatim [OF h1 h2, of twice_frame] h1 h2 l show ?thesis
    by blast
qed

section \<open>Saving when the file cannot be read\<close>

text \<open>
  C7, amended. A missing file is no prior data: the new table is written in full. Any
  other failure to read the file is caught by the outer handler: the error is printed,
  nothing is written and the file system is as it was. In every case
  \<open>save_weather_data\<close> returns.
\<close>

theorem save_read_failures:
  "(read_csv filename files = Inl FileNotFoundError \<and> \<not> read_only files \<longrightarrow>
      save_weather_data df filename files =
        Inr (files\<lparr>nodes := (nodes files)(filename \<mapsto> Csv (to_grid df))\<rparr>, [Saved_to filename])) \<and>
   (\<forall>e. read_csv filename files = Inl e \<and> e \<noteq> FileNotFoundError \<longrightarrow>
      save_weather_data df filename files = Inr (files, [Error_saving e])) \<and>
   (\<exists>files' out. save_weather_data df filename files = Inr (files', out))"
  using save_missing save_unreadable save_returns by blast

theorem save_read_failures_witness:
  "read_csv ''india_weather_data.csv'' empty_file = Inl EmptyDataError \<and>
   EmptyDataError \<noteq> FileNotFoundError \<and>
   save_weather_data delhi_frame ''india_weather_data.csv'' empty_file =
     Inr (empty_file, [Error_saving EmptyDataError]) \<and>
   read_csv ''india_weather_data.csv'' no_files = Inl FileNotFoundError \<and>
   \<not> read_only no_files \<and>
   save_weather_data delhi_frame ''india_weather_data.csv'' no_files =
     Inr (no_files\<lparr>nodes := (nodes no_files)(''india_weather_data.csv'' \<mapsto> Csv (to_grid delhi_frame))\<rparr>,
          [Saved_to ''india_weather_data.csv''])"
proof -
  have r1: "read_csv ''india_weather_data.csv'' empty_file = Inl EmptyDataError"
    by code_simp
  have r2: "read_csv ''india_weather_data.csv'' no_files = Inl FileNotFoundError"
    by code_simp
  have w: "\<not> read_only no_files"
    by (simp add: no_files_def)
  from save_read_failures [of "''india_weather_data.csv''" empty_file delhi_frame]
       save_read_failures [of "''india_weather_data.csv''" no_files delhi_frame]
       r1 r2 w
  show ?thesis
    by simp
qed

section \<open>Lemmas on the driver\<close>

lemma get_weather_data_no_response:
  "request_of api_key city_id world = None \<Longrightarrow>
   get_weather_data api_key city_id world = Inr (None, [Error_fetching ConnectionError])"
  by (simp add: get_weather_data_def fetch_frame_def requests_get_def request_of_def)

lemma get_weather_data_error_status:
  "request_of api_key city_id world = Some r \<Longrightarrow>
   400 \<le> status_code r \<and> status_code r < 600 \<Longrightarrow>
   get_weather_data api_key city_id world = Inr (None, [Error_fetching HTTPError])"
  by (simp add: get_weather_data_def fetch_frame_def requests_get_def request_of_def
      raise_for_status_def)

lemma get_weather_data_not_json:
  "request_of api_key city_id world = Some r \<Longrightarrow>
   \<not> (400 \<le> status_code r \<and> status_code r < 600) \<Longrightarrow> body r = None \<Longrightarrow>
   get_weather_data api_key city_id world = Inr (None, [Error_fetching JSONDecodeError])"
  by (simp add: get_weather_data_def fetch_frame_def requests_get_def request_of_def
      raise_for_status_def response_json_def)

lemma get_weather_data_recoverable:
  assumes "recoverable_answer (request_of api_key city_id world)"
  shows "\<exists>res. get_weather_data api_key city_id world = Inr res"
proof (cases "request_of api_key city_id world")
  case None
  then show ?thesis
    by (simp add: get_weather_data_no_response)
next
  case (Some r)
  show ?thesis
  proof (cases "400 \<le> status_code r \<and> status_code r < 600")
    case True
    with Some show ?thesis
      by (simp add: get_weather_data_error_status)
  next
    case False
    show ?thesis
    proof (cases "body r")
      case None
      with Some False show ?thesis
        by (simp add: get_weather_data_not_json)
    next
      case (Some b)
      with assms \<open>request_of api_key city_id world = Some r\<close> False
      have "valid_response (request_of api_key city_id world)"
        by (simp add: recoverable_answer_def valid_response_def)
      then show ?thesis
        by (simp add: get_weather_data_valid)
    qed
  qed
qed

lemma fetch_all_returns:
  "list_all (\<lambda>(city, city_id). recoverable_answer (request_of api_key city_id world)) registry \<Longrightarrow>
   \<exists>res. fetch_all api_key world registry acc out = Inr res"
proof (induction registry arbitrary: acc out)
  case Nil
  then show ?case by simp
next
  case (Cons entry registry)
  obtain city city_id where entry: "entry = (city, city_id)"
    by (cases entry)
  from Cons.prems entry have "recoverable_answer (request_of api_key city_id world)"
    by simp
  then obtain res where "get_weather_data api_key city_id world = Inr res"
    using get_weather_data_recoverable by blast
  moreover from Cons.prems have
    "list_all (\<lambda>(city, city_id). recoverable_answer (request_of api_key city_id world)) registry"
    by simp
  ultimately show ?case
    using Cons.IH entry by (cases res) (auto split: option.splits)
qed

lemma fetch_all_fails:
  "list_all (\<lambda>(city, city_id). fetch_fails api_key world city_id) registry \<Longrightarrow>
   \<exists>out'. fetch_all api_key world registry acc out = Inr (acc, out @ out') \<and>
          Saved_to ''india_weather_data.csv'' \<notin> set out'"
proof (induction registry arbitrary: out)
  case Nil
  then show ?case by simp
next
  case (Cons entry registry)
  obtain city city_id where entry: "entry = (city, city_id)"
    by (cases entry)
  from Cons.prems entry obtain printed where
    g: "get_weather_data api_key city_id world = Inr (None, printed)"
    by (auto simp: fetch_fails_def split: sum.splits prod.splits option.splits)
  then have p: "printed = [] \<or> (\<exists>e. printed = [Error_fetching e])"
    by (auto simp: get_weather_data_def split: sum.splits if_splits)
  from Cons.prems have
    "list_all (\<lambda>(city, city_id). fetch_fails api_key world city_id) registry"
    by simp
  from Cons.IH [OF this, of "out @ [Fetching city] @ printed @ [Failed_to_fetch city]"]
  obtain out' where
    r: "fetch_all api_key world registry acc (out @ [Fetching city] @ printed @ [Failed_to_fetch city]) =
          Inr (acc, (out @ [Fetching city] @ printed @ [Failed_to_fetch city]) @ out')" and
    s: "Saved_to ''india_weather_data.csv'' \<notin> set out'"
    by blast
  have "fetch_all api_key world (entry # registry) acc out =
          Inr (acc, out @ ([Fetching city] @ printed @ [Failed_to_fetch city] @ out'))"
    using entry g r by simp
  moreover have "Saved_to ''india_weather_data.csv'' \<notin>
                   set ([Fetching city] @ printed @ [Failed_to_fetch city] @ out')"
    using s p by auto
  ultimately show ?case
    by blast
qed

section \<open>When every fetch fails\<close>

text \<open>
  C6. If the fetch of every city of the registry returns the failure sentinel, the run
  ends normally with the file system exactly as it was: nothing is written, and the
  run says that no data was fetched and never that it saved.
\<close>

theorem run_all_fetches_fail:
  assumes "list_all (\<lambda>(city, city_id). fetch_fails api_key world city_id) registry"
  shows "\<exists>out. run api_key registry world files = Inr (files, out) \<and>
               last out = No_data_fetched \<and>
               Saved_to ''india_weather_data.csv'' \<notin> set out"
proof -
  from fetch_all_fails [OF assms, of "[]" "[Fetching_all]"] obtain out' where
    "fetch_all api_key world registry [] [Fetching_all] = Inr ([], [Fetching_all] @ out')" and
    "Saved_to ''india_weather_data.csv'' \<notin> set out'"
    by blast
  then show ?thesis
    by (simp add: run_def)
qed

theorem run_all_fetches_fail_witness:
  "list_all (\<lambda>(city, city_id). fetch_fails API_KEY dead_world city_id) CITIES \<and>
   (\<exists>out. main dead_world earlier_files = Inr (earlier_files, out) \<and>
          last out = No_data_fetched \<and>
          Saved_to ''india_weather_data.csv'' \<notin> set out)"
proof -
  have h: "list_all (\<lambda>(city, city_id). fetch_fails API_KEY dead_world city_id) CITIES"
    by code_simp
  from run_all_fetches_fail [OF h, of earlier_files] h show ?thesis
    by (simp add: main_def)
qed

section \<open>Which failures a run survives\<close>

text \<open>
  C1, amended. When the request of every city either fails as a request (no response,
  an error status, a body that is not JSON) or brings a list of valid entries, the run
  ends normally, whatever the state of the file system: the failed cities are skipped,
  and a failure to read or write the file is caught inside \<open>save_weather_data\<close>. An
  exception of the fetch that is not a \<^verbatim>\<open>RequestException\<close> is not caught by
  \<open>get_weather_data\<close>: it propagates.
\<close>

theorem run_survives_request_and_file_failures:
  assumes "list_all (\<lambda>(city, city_id). recoverable_answer (request_of api_key city_id world))
             registry"
  shows "(\<exists>files' out. run api_key registry world files = Inr (files', out)) \<and>
         (\<forall>df filename. \<exists>files' out. save_weather_data df filename files = Inr (files', out)) \<and>
         (\<forall>city_id e. fetch_frame api_key city_id world = Inl e \<and> \<not> is_RequestException e \<longrightarrow>
            get_weather_data api_key city_id world = Inl e)"
proof -
  from fetch_all_returns [OF assms, of "[]" "[Fetching_all]"] obtain frames out where
    f: "fetch_all api_key world registry [] [Fetching_all] = Inr (frames, out)"
    by force
  have "\<exists>files' out. run api_key registry world files = Inr (files', out)"
  proof (cases "frames = []")
    case True
    with f show ?thesis
      by (simp add: run_def)
  next
    case False
    obtain files' printed where
      "save_weather_data
         (map (\<lambda>name. (name, unify (concat (map (column_of name) frames))))
            (first_seen (concat (map (map fst) frames))))
         ''india_weather_data.csv'' files = Inr (files', printed)"
      using save_returns by blast
    with f False show ?thesis
      by (simp add: run_def pd_concat_def)
  qed
  moreover have "\<forall>df filename. \<exists>files' out. save_weather_data df filename files = Inr (files', out)"
    using save_returns by blast
  moreover have "\<forall>city_id e. fetch_frame api_key city_id world = Inl e \<and> \<not> is_RequestException e \<longrightarrow>
            get_weather_data api_key city_id world = Inl e"
    by (simp add: get_weather_data_def)
  ultimately show ?thesis
    by blast
qed

lemma main_mixed_eval:
  "printed (main mixed_world locked_files) =
     Some ([Fetching_all, Fetching ''Dehradun'', Error_fetching ConnectionError,
            Failed_to_fetch ''Dehradun'', Fetching ''Delhi'', Fetching ''Mumbai'',
            Error_fetching HTTPError, Failed_to_fetch ''Mumbai'', Fetching ''Kolkata'',
            Error_fetching JSONDecodeError, Failed_to_fetch ''Kolkata''] @
           concat (map (\<lambda>(city, city_id).
                          [Fetching city, Error_fetching ConnectionError, Failed_to_fetch city])
                     (drop 4 CITIES)) @
           [Error_saving PermissionError])"
  by code_simp

theorem run_survives_request_and_file_failures_witness:
  "list_all (\<lambda>(city, city_id). recoverable_answer (request_of API_KEY city_id mixed_world)) CITIES \<and>
   (\<exists>files' out. main mixed_world locked_files = Inr (files', out) \<and>
      last out = Error_saving PermissionError)"
proof -
  have h: "list_all (\<lambda>(city, city_id). recoverable_answer (request_of API_KEY city_id mixed_world))
             CITIES"
    by code_simp
  from run_survives_request_and_file_failures [OF h, of locked_files] obtain files' out where
    r: "main mixed_world locked_files = Inr (files', out)"
    unfolding main_def by blast
  with main_mixed_eval have "last out = Error_saving PermissionError"
    by (simp add: printed_def)
  with h r show ?thesis
    by blast
qed

section \<open>Optional fields\<close>

lemma forecast_frame_visibility:
  "map_of (forecast_frame items) ''visibility'' =
     Some (map (\<lambda>item. adapt (map (\<lambda>item. cell_of_json (field item ''visibility'')) items)
                          (cell_of_json (field item ''visibility''))) items)"
  by (simp add: forecast_frame_def forecast_columns_def extractors_def)

lemma forecast_frame_rainfall:
  "map_of (forecast_frame items) ''rainfall'' =
     Some (map (\<lambda>item. adapt (map (\<lambda>item. cell_of_json (entry_rain item)) items)
                          (cell_of_json (entry_rain item))) items)"
  by (simp add: forecast_frame_def forecast_columns_def extractors_def)

lemma field_without_key: "\<not> has_key j k \<Longrightarrow> field j k = JNull"
  by (cases j) auto

lemma float_repr_zero: "float_repr_of_int 0 = ''0.0''"
  by (simp add: float_repr_of_int_def show_int_def show_pos.simps digit_char_def)

lemma adapt_NA: "adapt col NA = NA"
  by (simp add: adapt_def)

lemma adapt_zero: "adapt col (IntV 0) = IntV 0 \<or> adapt col (IntV 0) = FloatV ''0.0''"
  by (simp add: adapt_def float_repr_zero)

text \<open>
  C5. For a valid response, an entry without \<^verbatim>\<open>visibility\<close> has a missing value in
  the \<^verbatim>\<open>visibility\<close> column of its row, and an entry without \<^verbatim>\<open>rain\<close>, or whose
  \<^verbatim>\<open>rain\<close> has no \<^verbatim>\<open>3h\<close>, has zero in the \<^verbatim>\<open>rainfall\<close> column (the integer, or the
  float where the column is a float column); the fetch returns its table with a row
  for every entry, these entries included.
\<close>

theorem optional_fields_default:
  assumes "valid_response (request_of api_key city_id world)"
  shows "\<exists>df vis rain.
           get_weather_data api_key city_id world = Inr (Some df, []) \<and>
           nrows df = length (response_entries (request_of api_key city_id world)) \<and>
           map_of df ''visibility'' = Some vis \<and>
           map_of df ''rainfall'' = Some rain \<and>
           length vis = length (response_entries (request_of api_key city_id world)) \<and>
           length rain = length (response_entries (request_of api_key city_id world)) \<and>
           (\<forall>n < length (response_entries (request_of api_key city_id world)).
              (\<not> has_key (response_entries (request_of api_key city_id world) ! n) ''visibility''
                 \<longrightarrow> vis ! n = NA) \<and>
              (\<not> (has_key (response_entries (request_of api_key city_id world) ! n) ''rain'' \<and>
                  has_key (field (response_entries (request_of api_key city_id world) ! n) ''rain'')
                    ''3h'')
                 \<longrightarrow> rain ! n = IntV 0 \<or> rain ! n = FloatV ''0.0''))"
proof -
  define items where "items = response_entries (request_of api_key city_id world)"
  define vis where
    "vis = map (\<lambda>item. adapt (map (\<lambda>item. cell_of_json (field item ''visibility'')) items)
                          (cell_of_json (field item ''visibility''))) items"
  define rain where
    "rain = map (\<lambda>item. adapt (map (\<lambda>item. cell_of_json (entry_rain item)) items)
                          (cell_of_json (entry_rain item))) items"
  have g: "get_weather_data api_key city_id world = Inr (Some (forecast_frame items), [])"
    unfolding items_def using assms by (rule get_weather_data_valid)
  have v: "vis ! n = NA" if "n < length items" and "\<not> has_key (items ! n) ''visibility''" for n
    using that by (simp add: vis_def field_without_key adapt_NA)
  have r: "rain ! n = IntV 0 \<or> rain ! n = FloatV ''0.0''"
    if "n < length items" and
       "\<not> (has_key (items ! n) ''rain'' \<and> has_key (field (items ! n) ''rain'') ''3h'')" for n
  proof -
    from that(2) have "entry_rain (items ! n) = JInt 0"
      by (auto simp: entry_rain_def)
    with that(1) show ?thesis
      using adapt_zero by (simp add: rain_def)
  qed
  have "get_weather_data api_key city_id world = Inr (Some (forecast_frame items), []) \<and>
        nrows (forecast_frame items) = length items \<and>
        map_of (forecast_frame items) ''visibility'' = Some vis \<and>
        map_of (forecast_frame items) ''rainfall'' = Some rain \<and>
        length vis = length items \<and> length rain = length items \<and>
        (\<forall>n < length items.
           (\<not> has_key (items ! n) ''visibility'' \<longrightarrow> vis ! n = NA) \<and>
           (\<not> (has_key (items ! n) ''rain'' \<and> has_key (field (items ! n) ''rain'') ''3h'')
              \<longrightarrow> rain ! n = IntV 0 \<or> rain ! n = FloatV ''0.0''))"
    using g v r
    by (simp add: forecast_frame_nrows forecast_frame_visibility forecast_frame_rainfall
        vis_def rain_def)
  then show ?thesis
    unfolding items_def by blast
qed

theorem optional_fields_default_witness:
  "valid_response (request_of API_KEY ''1273294'' two_entry_world) \<and>
   response_entries (request_of API_KEY ''1273294'' two_entry_world) = [delhi_entry, rainy_entry] \<and>
   \<not> has_key delhi_entry ''visibility'' \<and> \<not> has_key delhi_entry ''rain'' \<and>
   (\<exists>df vis rain.
      get_weather_data API_KEY ''1273294'' two_entry_world = Inr (Some df, []) \<and>
      nrows df = 2 \<and>
      map_of df ''visibility'' = Some vis \<and> map_of df ''rainfall'' = Some rain \<and>
      vis ! 0 = NA \<and> (rain ! 0 = IntV 0 \<or> rain ! 0 = FloatV ''0.0''))"
proof -
  have h: "valid_response (request_of API_KEY ''1273294'' two_entry_world)"
    by code_simp
  have e: "response_entries (request_of API_KEY ''1273294'' two_entry_world) =
             [delhi_entry, rainy_entry]"
    by code_simp
  have k: "\<not> has_key delhi_entry ''visibility''" "\<not> has_key delhi_entry ''rain''"
    by code_simp+
  from optional_fields_default [OF h] obtain df vis rain where
    g: "get_weather_data API_KEY ''1273294'' two_entry_world = Inr (Some df, [])" and
    n: "nrows df = length (response_entries (request_of API_KEY ''1273294'' two_entry_world))" and
    m: "map_of df ''visibility'' = Some vis" "map_of df ''rainfall'' = Some rain" and
    q: "\<forall>n < length (response_entries (request_of API_KEY ''1273294'' two_entry_world)).
          (\<not> has_key (response_entries (request_of API_KEY ''1273294'' two_entry_world) ! n)
               ''visibility'' \<longrightarrow> vis ! n = NA) \<and>
          (\<not> (has_key (response_entries (request_of API_KEY ''1273294'' two_entry_world) ! n) ''rain'' \<and>
              has_key (field (response_entries (request_of API_KEY ''1273294'' two_entry_world) ! n)
                ''rain'') ''3h'')
             \<longrightarrow> rain ! n = IntV 0 \<or> rain ! n = FloatV ''0.0'')"
    by blast
  from n have n2: "nrows df = 2"
    unfolding e by simp
  from q [unfolded e] k have "vis ! 0 = NA \<and> (rain ! 0 = IntV 0 \<or> rain ! 0 = FloatV ''0.0'')"
    by force
  with h e k g n2 m show ?thesis
    by blast
qed

section \<open>The city column\<close>

lemma and_then_Inr:
  "and_then m f = Inr v \<longleftrightarrow> (\<exists>x. m = Inr x \<and> f x = Inr v)"
  by (cases m) simp_all

lemma map_fst_setcol_present:
  "name \<in> set (map fst df) \<Longrightarrow> map fst (setcol df name cs) = map fst df"
  by (induction df) (auto simp: setcol_def)

lemma fetch_frame_columns:
  "fetch_frame api_key city_id world = Inr df \<Longrightarrow> map fst df = forecast_columns"
  unfolding fetch_frame_def Let_def and_then_Inr
  by (auto simp: map_fst_setcol_present DataFrame_def forecast_columns_def)

lemma get_weather_data_columns:
  "get_weather_data api_key city_id world = Inr (Some df, out) \<Longrightarrow> map fst df = forecast_columns"
  by (auto simp: get_weather_data_def fetch_frame_columns split: sum.splits if_splits)

lemma map_of_setcol: "map_of (setcol df name cs) name = Some cs"
proof (cases "name \<in> set (map fst df)")
  case True
  then have "map_of (map (\<lambda>(n, old). (n, if n = name then cs else old)) df) name = Some cs"
    by (induction df) auto
  with True show ?thesis
    by (simp add: setcol_def)
next
  case False
  then have "map_of df name = None"
    by (simp add: map_of_eq_None_iff)
  with False show ?thesis
    by (simp add: setcol_def map_add_def)
qed

lemma set_first_seen: "set (first_seen xs) = set xs"
  by (induction xs rule: first_seen.induct) auto

lemma unify_texts:
  assumes "\<forall>c \<in> set cs. \<exists>s. c = StrV s"
  shows "unify cs = cs"
proof (cases cs)
  case Nil
  then show ?thesis
    by (simp add: unify_def float_column_def)
next
  case (Cons c cs')
  with assms obtain s where "c = StrV s"
    by auto
  with Cons show ?thesis
    by (simp add: unify_def float_column_def)
qed

lemma fetch_all_frames:
  "fetch_all api_key world registry acc out = Inr (frames, out') \<Longrightarrow>
   frames = acc @ map (\<lambda>(city, df). setcol df ''city'' (replicate (nrows df) (StrV city)))
                    (fetched api_key world registry)"
proof (induction registry arbitrary: acc out)
  case Nil
  then show ?case
    by (simp add: fetched_def)
next
  case (Cons entry registry)
  obtain city city_id where entry: "entry = (city, city_id)"
    by (cases entry)
  show ?case
  proof (cases "get_weather_data api_key city_id world")
    case (Inl e)
    with Cons.prems entry show ?thesis
      by simp
  next
    case (Inr res)
    obtain got printed where res: "res = (got, printed)"
      by (cases res)
    show ?thesis
    proof (cases got)
      case None
      with Cons.prems entry Inr res have
        "fetch_all api_key world registry acc
           (out @ [Fetching city] @ printed @ [Failed_to_fetch city]) = Inr (frames, out')"
        by simp
      from Cons.IH [OF this] show ?thesis
        using entry Inr res None by (simp add: fetched_def)
    next
      case (Some weather_df)
      with Cons.prems entry Inr res have
        "fetch_all api_key world registry
           (acc @ [setcol weather_df ''city'' (replicate (nrows weather_df) (StrV city))])
           (out @ [Fetching city] @ printed) = Inr (frames, out')"
        by simp
      from Cons.IH [OF this] show ?thesis
        using entry Inr res Some by (simp add: fetched_def)
    qed
  qed
qed

lemma fetched_Cons:
  "fetched api_key world ((city, city_id) # registry) =
     (case get_weather_data api_key city_id world of
        Inr (Some df, out) \<Rightarrow> [(city, df)]
      | _ \<Rightarrow> []) @ fetched api_key world registry"
  by (simp add: fetched_def)

lemma fetched_from_registry:
  "(city, df) \<in> set (fetched api_key world registry) \<Longrightarrow>
   \<exists>city_id out. (city, city_id) \<in> set registry \<and>
                 get_weather_data api_key city_id world = Inr (Some df, out)"
proof (induction registry)
  case Nil
  then show ?case
    by (simp add: fetched_def)
next
  case (Cons entry registry)
  obtain name city_id where entry: "entry = (name, city_id)"
    by (cases entry)
  show ?case
  proof (cases "(city, df) \<in> set (fetched api_key world registry)")
    case True
    from Cons.IH [OF this] show ?thesis
      by auto
  next
    case False
    with Cons.prems entry have
      m: "(city, df) \<in> set (case get_weather_data api_key city_id world of
                                Inr (Some df, out) \<Rightarrow> [(name, df)]
                              | _ \<Rightarrow> [])"
      by (simp add: fetched_Cons)
    then obtain out where "get_weather_data api_key city_id world = Inr (Some df, out)"
      and "name = city"
      by (cases "get_weather_data api_key city_id world")
         (auto split: prod.splits option.splits)
    with entry show ?thesis
      by auto
  qed
qed

lemma concat_city_column:
  assumes c: "pd_concat (map (\<lambda>(city, df). setcol df ''city'' (replicate (nrows df) (StrV city))) got) =
                Inr combined"
    and ne: "got \<noteq> []"
  shows "map_of combined ''city'' =
           Some (concat (map (\<lambda>(city, df). replicate (nrows df) (StrV city)) got))"
proof -
  let ?tag = "\<lambda>(city, df). setcol df ''city'' (replicate (nrows df) (StrV city))"
  let ?names = "first_seen (concat (map (map fst) (map ?tag got)))"
  from c ne have comb: "combined =
      map (\<lambda>name. (name, unify (concat (map (column_of name) (map ?tag got))))) ?names"
    by (simp add: pd_concat_def)
  from ne obtain g gs where got: "got = g # gs"
    by (cases got) auto
  obtain city df where g: "g = (city, df)"
    by (cases g)
  have "map_of (?tag g) ''city'' \<noteq> None"
    using g by (simp add: map_of_setcol)
  then have "''city'' \<in> set (map fst (?tag g))"
    by (simp add: map_of_eq_None_iff)
  then have mem: "''city'' \<in> set ?names"
    by (simp add: set_first_seen got)
  have col: "column_of ''city'' (?tag x) = (case x of (city, df) \<Rightarrow> replicate (nrows df) (StrV city))"
    for x
    by (cases x) (simp add: column_of_def map_of_setcol)
  have cells: "concat (map (column_of ''city'') (map ?tag got)) =
                 concat (map (\<lambda>(city, df). replicate (nrows df) (StrV city)) got)"
    by (simp add: comp_def col)
  have "\<forall>c \<in> set (concat (map (\<lambda>(city, df). replicate (nrows df) (StrV city)) got)). \<exists>s. c = StrV s"
    by auto
  then have u: "unify (concat (map (\<lambda>(city, df). replicate (nrows df) (StrV city)) got)) =
                  concat (map (\<lambda>(city, df). replicate (nrows df) (StrV city)) got)"
    by (rule unify_texts)
  have "map_of combined ''city'' = Some (unify (concat (map (column_of ''city'') (map ?tag got))))"
    unfolding comb using mem by (simp add: map_of_map_restrict)
  with cells u show ?thesis
    by simp
qed

text \<open>
  C10. When the loop over the registry has ended and its frames are combined, the
  \<^verbatim>\<open>city\<close> column of the combined table is, block by block, the registry name of
  each city whose fetch returned a table, in registry order, repeated once per row of
  that table. So every cell of the column is a name of the registry, and no name of
  the script's registry is empty. A table returned by \<open>get_weather_data\<close> has no
  \<^verbatim>\<open>city\<close> column.
\<close>

theorem city_column_names_the_fetch:
  assumes "fetch_all api_key world registry [] out0 = Inr (frames, out)"
    and "pd_concat frames = Inr combined_df"
  shows "map_of combined_df ''city'' =
           Some (concat (map (\<lambda>(city, df). replicate (nrows df) (StrV city))
                          (fetched api_key world registry))) \<and>
         (\<forall>(city, df) \<in> set (fetched api_key world registry).
            \<exists>city_id printed. (city, city_id) \<in> set registry \<and>
               get_weather_data api_key city_id world = Inr (Some df, printed)) \<and>
         (\<forall>cells. map_of combined_df ''city'' = Some cells \<longrightarrow>
            (\<forall>c \<in> set cells. \<exists>city \<in> fst ` set registry. c = StrV city)) \<and>
         (\<forall>city_id df printed. get_weather_data api_key city_id world = Inr (Some df, printed) \<longrightarrow>
            ''city'' \<notin> set (map fst df)) \<and>
         (\<forall>(city, city_id) \<in> set CITIES. city \<noteq> [])"
proof -
  let ?got = "fetched api_key world registry"
  from assms(1) have frames:
    "frames = map (\<lambda>(city, df). setcol df ''city'' (replicate (nrows df) (StrV city))) ?got"
    using fetch_all_frames by fastforce
  from assms(2) have "frames \<noteq> []"
    by (auto simp: pd_concat_def)
  with frames have ne: "?got \<noteq> []"
    by auto
  have a: "map_of combined_df ''city'' =
             Some (concat (map (\<lambda>(city, df). replicate (nrows df) (StrV city)) ?got))"
    using assms(2) ne unfolding frames by (rule concat_city_column)
  have b: "\<forall>(city, df) \<in> set ?got.
            \<exists>city_id printed. (city, city_id) \<in> set registry \<and>
               get_weather_data api_key city_id world = Inr (Some df, printed)"
    using fetched_from_registry by fast
  have c: "\<forall>c \<in> set cells. \<exists>city \<in> fst ` set registry. c = StrV city"
    if "map_of combined_df ''city'' = Some cells" for cells
  proof
    fix c
    assume "c \<in> set cells"
    with that a obtain city df where m: "(city, df) \<in> set ?got" and "c = StrV city"
      by auto
    moreover from b m have "city \<in> fst ` set registry"
      by force
    ultimately show "\<exists>city \<in> fst ` set registry. c = StrV city"
      by blast
  qed
  have d: "\<forall>city_id df printed. get_weather_data api_key city_id world = Inr (Some df, printed) \<longrightarrow>
            ''city'' \<notin> set (map fst df)"
    by (auto dest!: get_weather_data_columns simp: forecast_columns_def)
  have e: "\<forall>(city, city_id) \<in> set CITIES. city \<noteq> []"
    by (simp add: CITIES_def)
  from a b c d e show ?thesis
    by blast
qed

theorem city_column_names_the_fetch_witness:
  "\<exists>frames out combined_df.
     fetch_all API_KEY mixed_world CITIES [] [Fetching_all] = Inr (frames, out) \<and>
     pd_concat frames = Inr combined_df \<and>
     map_of combined_df ''city'' = Some [StrV ''Delhi'', StrV ''Delhi'']"
proof -
  have h: "list_all (\<lambda>(city, city_id). recoverable_answer (request_of API_KEY city_id mixed_world))
             CITIES"
    by code_simp
  from fetch_all_returns [OF h, of "[]" "[Fetching_all]"] obtain frames out where
    f: "fetch_all API_KEY mixed_world CITIES [] [Fetching_all] = Inr (frames, out)"
    by force
  then have frames:
    "frames = map (\<lambda>(city, df). setcol df ''city'' (replicate (nrows df) (StrV city)))
                (fetched API_KEY mixed_world CITIES)"
    using fetch_all_frames by fastforce
  have "fetched API_KEY mixed_world CITIES \<noteq> []"
    by code_simp
  with frames have "frames \<noteq> []"
    by simp
  then obtain combined_df where p: "pd_concat frames = Inr combined_df"
    by (simp add: pd_concat_def)
  have v: "concat (map (\<lambda>(city, df). replicate (nrows df) (StrV city))
                     (fetched API_KEY mixed_world CITIES)) = [StrV ''Delhi'', StrV ''Delhi'']"
    by code_simp
  from city_column_names_the_fetch [OF f p] have
    "map_of combined_df ''city'' =
       Some (concat (map (\<lambda>(city, df). replicate (nrows df) (StrV city))
                      (fetched API_KEY mixed_world CITIES)))"
    by blast
  with v f p show ?thesis
    by auto
qed

end
